theory Spec2Isabelle
  imports Complex_Main "HOL-Library.Word"
begin

section \<open>Text and character classes\<close>

text \<open>
  The analyzer in \<^verbatim>\<open>plot_gcc_decision_analysis_vertical.py\<close> works on Python \<^verbatim>\<open>str\<close>
  values, sequences of code points.  A line is modelled as a \<^typ>\<open>string\<close> whose
  characters stand for the code points U+0000 to U+00FF; on that range the tables below are
  those of Python's \<^verbatim>\<open>re\<close> module and of \<^verbatim>\<open>str.strip\<close>, \<^verbatim>\<open>int\<close> and \<^verbatim>\<open>float\<close>.
  Text with code points above U+00FF is outside the model (see \<open>latin1_text\<close>).
\<close>

definition LF :: char where "LF = CHR 0x0A"
definition CR :: char where "CR = CHR 0x0D"

definition code :: "char \<Rightarrow> int" where
  "code c = of_char c"

definition is_digit :: "char \<Rightarrow> bool" where
  \<comment> \<open>\<^verbatim>\<open>\d\<close>: the decimal digits (general category Nd); below U+0100 these are 0-9\<close>
  "is_digit c = (48 \<le> code c \<and> code c \<le> 57)"

definition is_word :: "char \<Rightarrow> bool" where
  \<comment> \<open>\<^verbatim>\<open>\w\<close>: alphanumeric code points and the underscore\<close>
  "is_word c = (let n = code c in
     (48 \<le> n \<and> n \<le> 57) \<or> (65 \<le> n \<and> n \<le> 90) \<or> n = 95 \<or> (97 \<le> n \<and> n \<le> 122)
     \<or> n = 170 \<or> n = 178 \<or> n = 179 \<or> n = 181 \<or> n = 185 \<or> n = 186
     \<or> (188 \<le> n \<and> n \<le> 190) \<or> (192 \<le> n \<and> n \<le> 214) \<or> (216 \<le> n \<and> n \<le> 246)
     \<or> 248 \<le> n)"

definition is_space :: "char \<Rightarrow> bool" where
  \<comment> \<open>\<^verbatim>\<open>str.isspace\<close>, the characters removed by \<^verbatim>\<open>str.strip()\<close>\<close>
  "is_space c = (let n = code c in
     (9 \<le> n \<and> n \<le> 13) \<or> (28 \<le> n \<and> n \<le> 32) \<or> n = 133 \<or> n = 160)"

definition is_num_space :: "char \<Rightarrow> bool" where
  \<comment> \<open>the blanks that \<^verbatim>\<open>int()\<close> and \<^verbatim>\<open>float()\<close> skip around a number\<close>
  "is_num_space c = (let n = code c in
     (9 \<le> n \<and> n \<le> 13) \<or> n = 32 \<or> n = 133 \<or> n = 160)"

section \<open>Regular expressions as the patterns use them\<close>

text \<open>
  The patterns of the registry are sequences of literals, captured greedy runs
  \<^verbatim>\<open>(C+)\<close> of a character class and the lazy gap \<^verbatim>\<open>.*?\<close>.  The matcher follows the
  backtracking order of \<^verbatim>\<open>re\<close>: a greedy run first takes all it can and gives back one
  character at a time, a lazy gap first takes nothing and grows one character at a time, and
  \<^verbatim>\<open>search\<close> tries the start positions from left to right.
\<close>

datatype cls = Digit | Word | AnyChar | NotChar char

fun in_cls :: "cls \<Rightarrow> char \<Rightarrow> bool" where
  "in_cls Digit c = is_digit c"
| "in_cls Word c = is_word c"
| "in_cls AnyChar c = (c \<noteq> LF)"
| "in_cls (NotChar x) c = (c \<noteq> x)"

datatype tok = Lit string | Cap cls | Gap

type_synonym pattern = "tok list"

fun strip_prefix :: "string \<Rightarrow> string \<Rightarrow> string option" where
  "strip_prefix [] s = Some s"
| "strip_prefix (c # cs) [] = None"
| "strip_prefix (c # cs) (x # xs) = (if c = x then strip_prefix cs xs else None)"

fun greedy :: "cls \<Rightarrow> (string \<Rightarrow> string \<Rightarrow> 'a option) \<Rightarrow> string \<Rightarrow> string \<Rightarrow> 'a option" where
  "greedy c k acc [] = (if acc = [] then None else k acc [])"
| "greedy c k acc (x # xs) =
     (if in_cls c x then
        (case greedy c k (acc @ [x]) xs of
           Some r \<Rightarrow> Some r
         | None \<Rightarrow> if acc = [] then None else k acc (x # xs))
      else if acc = [] then None else k acc (x # xs))"

fun lazy :: "cls \<Rightarrow> (string \<Rightarrow> 'a option) \<Rightarrow> string \<Rightarrow> 'a option" where
  "lazy c k [] = k []"
| "lazy c k (x # xs) =
     (case k (x # xs) of
        Some r \<Rightarrow> Some r
      | None \<Rightarrow> if in_cls c x then lazy c k xs else None)"

primrec match_here :: "pattern \<Rightarrow> string \<Rightarrow> (string list \<times> string) option" where
  "match_here [] s = Some ([], s)"
| "match_here (t # ts) s =
     (case t of
        Lit l \<Rightarrow> (case strip_prefix l s of None \<Rightarrow> None | Some r \<Rightarrow> match_here ts r)
      | Cap c \<Rightarrow> greedy c (\<lambda>w r. map_option (\<lambda>(gs, r'). (w # gs, r')) (match_here ts r)) [] s
      | Gap \<Rightarrow> lazy AnyChar (match_here ts) s)"

fun search :: "pattern \<Rightarrow> string \<Rightarrow> string list option" where
  "search p [] = map_option fst (match_here p [])"
| "search p (x # xs) =
     (case match_here p (x # xs) of
        Some (gs, r) \<Rightarrow> Some gs
      | None \<Rightarrow> search p xs)"

definition group :: "string list \<Rightarrow> nat \<Rightarrow> string" where
  \<comment> \<open>\<^verbatim>\<open>m.group(i)\<close>, groups numbered from 1\<close>
  "group gs i = gs ! (i - 1)"

subsection \<open>The pattern registry\<close>

definition decision :: pattern where
  "decision = [Lit ''[GCC-DECISION-SNAPSHOT] at '', Cap Digit, Lit ''ms | DelayState: '', Cap Word,
     Lit '', DelayTargetBps: '', Cap Digit, Lit '' | RttBackoff: '', Cap Word,
     Lit '' | ProbeResultBps: '', Cap Digit, Lit '' | BweTargetBps: '', Cap Digit,
     Lit '' | AckedBitrateBps: '', Cap Digit, Lit '' | FinalTargetBps: '', Cap Digit,
     Lit '' | DecisionReason: '', Cap Word, Lit '' | Updated: '', Cap Word]"

definition trendline :: pattern where
  "trendline = [Lit ''[Trendline] Time: '', Cap Digit, Lit '' ms'', Gap, Lit ''Modified trend: '',
     Cap (NotChar CHR '',''), Lit '', Threshold: '', Cap (NotChar CHR '',''), Lit '', State: '', Cap Word]"

definition rtt_bwe :: pattern where
  "rtt_bwe = [Lit ''[RttBWE-Update] Time: '', Cap Digit, Lit '' ms, PropagationRtt: '', Cap Digit,
     Lit '' ms, CorrectedRtt: '', Cap Digit, Lit '' ms, RttLimit: '', Cap Digit,
     Lit '' ms, AboveLimit: '', Cap Word]"

definition loss_bwe :: pattern where
  "loss_bwe = [Lit ''[LossBWE-Estimate] Time: '', Cap Digit, Lit '' ms, State: '', Cap Digit,
     Lit '', Bandwidth: '', Cap Digit, Lit '' bps, Observations: '', Cap Digit]"

definition loss_candidates :: pattern where
  "loss_candidates = [Lit ''[LossBWE-Candidates] Time: '', Cap Digit,
     Lit '' ms, Candidate Bandwidths (kbps): '', Cap AnyChar]"

definition delay_bwe :: pattern where
  "delay_bwe = [Lit ''[DelayBWE-Decision] Time: '', Cap Digit, Lit '' ms'', Gap,
     Lit ''New bitrate: '', Cap Digit, Lit '' bps'', Gap, Lit ''Probe: '', Cap Word]"

definition probe_result :: pattern where
  "probe_result = [Lit ''[ProbeBWE-Result] Time: '', Cap Digit, Lit '' ms, Cluster ID: '', Cap Digit,
     Lit '', Final estimate: '', Cap Digit, Lit '' bps'']"

definition probe_success :: pattern where
  "probe_success = [Lit ''[ProbeBWE-Success] Time: '', Cap Digit, Lit '' ms, Cluster ID: '', Cap Digit,
     Lit '', Send rate: '', Cap Digit, Lit '' bps'']"

definition probe_result_old :: pattern where
  "probe_result_old = [Lit ''[ProbeBWE-Result] Cluster ID: '', Cap Digit,
     Lit '', Final estimate: '', Cap Digit, Lit '' bps'']"

definition probe_success_old :: pattern where
  "probe_success_old = [Lit ''[ProbeBWE-Success] Cluster ID: '', Cap Digit,
     Lit '', Send rate: '', Cap Digit, Lit '' bps'']"

definition constraint_apply :: pattern where
  "constraint_apply = [Lit ''[BWE-ConstraintApply] Time: '', Cap Digit, Lit '' ms, Original: '', Cap Digit,
     Lit '' bps, UpperLimit: '', Cap Digit, Lit '' bps, AfterUpper: '', Cap Digit,
     Lit '' bps, MinConfig: '', Cap Digit, Lit '' bps, Final: '', Cap Digit,
     Lit '' bps, DelayLimit: '', Cap Digit, Lit '' bps, ReceiverLimit: '', Cap Digit,
     Lit '' bps, MaxConfig: '', Cap Digit, Lit '' bps'']"

definition delay_limit :: pattern where
  "delay_limit = [Lit ''[BWE-DelayLimit] Time: '', Cap Digit, Lit '' ms, OldLimit: '', Cap Digit,
     Lit '' bps, NewLimit: '', Cap Digit, Lit '' bps, CurrentTarget: '', Cap Digit, Lit '' bps'']"

definition receiver_limit :: pattern where
  "receiver_limit = [Lit ''[BWE-ReceiverLimit] Time: '', Cap Digit, Lit '' ms, OldLimit: '', Cap Digit,
     Lit '' bps, NewLimit: '', Cap Digit, Lit '' bps, CurrentTarget: '', Cap Digit, Lit '' bps'']"

definition config_limit :: pattern where
  "config_limit = [Lit ''[BWE-ConfigLimit] MinBitrate: '', Cap Digit, Lit '' -> '', Cap Digit,
     Lit '' bps, MaxBitrate: '', Cap Digit, Lit '' -> '', Cap Digit,
     Lit '' bps, CurrentTarget: '', Cap Digit, Lit '' bps'']"

definition pushback :: pattern where
  "pushback = [Lit ''[BWE-CongestionWindowPushback] Time: '', Cap Digit, Lit '' ms, OriginalRate: '', Cap Digit,
     Lit '' bps, PushbackRate: '', Cap Digit, Lit '' bps, MinBitrate: '', Cap Digit,
     Lit '' bps, Reduction: '', Cap Digit, Lit '' bps, ReductionRatio: '', Cap (NotChar CHR ''%''),
     Lit ''%'']"

subsection \<open>The timestamp resolver's pattern\<close>

text \<open>
  \<^verbatim>\<open>re.search(r'Time: (\d+) ms|at (\d+) ms', line)\<close>: at each start position the first
  alternative is tried before the second; the group of the alternative that did not match
  is \<^verbatim>\<open>None\<close>.
\<close>

definition time_form :: pattern where
  "time_form = [Lit ''Time: '', Cap Digit, Lit '' ms'']"

definition at_form :: pattern where
  "at_form = [Lit ''at '', Cap Digit, Lit '' ms'']"

definition timestamp_here :: "string \<Rightarrow> (string option \<times> string option) option" where
  "timestamp_here s =
     (case match_here time_form s of
        Some (gs, r) \<Rightarrow> Some (Some (group gs 1), None)
      | None \<Rightarrow>
         (case match_here at_form s of
            Some (gs, r) \<Rightarrow> Some (None, Some (group gs 1))
          | None \<Rightarrow> None))"

fun timestamp_search :: "string \<Rightarrow> (string option \<times> string option) option" where
  "timestamp_search [] = timestamp_here []"
| "timestamp_search (x # xs) =
     (case timestamp_here (x # xs) of
        Some m \<Rightarrow> Some m
      | None \<Rightarrow> timestamp_search xs)"

section \<open>Numbers\<close>

datatype error = ValueError | OverflowError | TypeError | UnicodeDecodeError | FileNotFoundError

definition ebind :: "error + 'a \<Rightarrow> ('a \<Rightarrow> error + 'b) \<Rightarrow> error + 'b" where
  \<comment> \<open>sequencing of two steps, the first of which may raise\<close>
  "ebind m f = (case m of Inl e \<Rightarrow> Inl e | Inr v \<Rightarrow> f v)"

subsection \<open>Reading numerals\<close>

definition num_strip :: "string \<Rightarrow> string" where
  "num_strip s = rev (dropWhile is_num_space (rev (dropWhile is_num_space s)))"

definition digit_val :: "char \<Rightarrow> int" where
  "digit_val c = code c - 48"

definition digits_val :: "string \<Rightarrow> int" where
  "digits_val ds = foldl (\<lambda>a c. 10 * a + digit_val c) 0 ds"

fun digitpart :: "string \<Rightarrow> string \<times> string" where
  \<comment> \<open>the longest prefix \<^verbatim>\<open>digit (["_"] digit)*\<close>, its digits, and what follows it\<close>
  "digitpart [] = ([], [])"
| "digitpart (c # cs) =
     (if is_digit c then
        (case cs of
           u # d # r \<Rightarrow>
             if u = CHR ''_'' \<and> is_digit d
             then (case digitpart (d # r) of (ds, r') \<Rightarrow> (c # ds, r'))
             else (case digitpart cs of (ds, r') \<Rightarrow> (c # ds, r'))
         | _ \<Rightarrow> (case digitpart cs of (ds, r') \<Rightarrow> (c # ds, r')))
      else ([], c # cs))"

definition split_sign :: "string \<Rightarrow> bool \<times> string" where
  \<comment> \<open>an optional sign: whether it is a minus, and the rest\<close>
  "split_sign s =
     (case s of
        c # cs \<Rightarrow> if c = CHR ''-'' then (True, cs) else if c = CHR ''+'' then (False, cs) else (False, s)
      | [] \<Rightarrow> (False, s))"

definition int_max_str_digits :: int where
  \<comment> \<open>CPython's default limit on the number of digits that \<^verbatim>\<open>int()\<close> converts\<close>
  "int_max_str_digits = 4300"

definition py_int :: "string \<Rightarrow> error + int" where
  \<comment> \<open>\<^verbatim>\<open>int(s)\<close> in base 10; a numeral of more than 4300 digits raises \<^verbatim>\<open>ValueError\<close>\<close>
  "py_int s =
     (case split_sign (num_strip s) of (neg, u) \<Rightarrow>
        (case digitpart u of (ds, r) \<Rightarrow>
           if ds \<noteq> [] \<and> r = [] \<and> int (length ds) \<le> int_max_str_digits
           then Inr (if neg then - digits_val ds else digits_val ds)
           else Inl ValueError))"

subsection \<open>Floats\<close>

text \<open>
  A Python float is an IEEE binary64 value: a finite value, kept as the rational it denotes,
  an infinity or a NaN.  The sign of zero is not kept (\<^verbatim>\<open>-0.0 == 0.0\<close> in Python).
  \<open>round_b64\<close> rounds a rational to the nearest binary64 value, ties to even, as the
  conversion from a decimal numeral and the multiplication do.
\<close>

datatype pyfloat = Finite rat | PInf | NInf | NaN

definition pow2 :: "int \<Rightarrow> rat" where
  "pow2 k = (if 0 \<le> k then 2 ^ nat k else 1 / 2 ^ nat (- k))"

definition pow10 :: "int \<Rightarrow> rat" where
  "pow10 k = (if 0 \<le> k then 10 ^ nat k else 1 / 10 ^ nat (- k))"

function bitlen :: "int \<Rightarrow> int" where
  \<comment> \<open>the number of binary digits of a positive integer\<close>
  "bitlen n = (if n \<le> 0 then 0 else 1 + bitlen (n div 2))"
  by pat_completeness auto
termination
  by (relation "measure nat") auto

declare bitlen.simps [simp del]

definition ilog2 :: "rat \<Rightarrow> int" where
  \<comment> \<open>for \<open>q > 0\<close>, the \<open>e\<close> with \<open>2 ^ e \<le> q < 2 ^ (e + 1)\<close>\<close>
  "ilog2 q =
     (case quotient_of q of (n, d) \<Rightarrow>
        let k = bitlen n - bitlen d
        in if pow2 k \<le> q then k else k - 1)"

definition round_half_even :: "rat \<Rightarrow> int" where
  "round_half_even x =
     (let f = \<lfloor>x\<rfloor>; r = x - of_int f
      in if r < 1 / 2 then f else if 1 / 2 < r then f + 1 else if even f then f else f + 1)"

definition round_b64_pos :: "rat \<Rightarrow> pyfloat" where
  \<comment> \<open>for \<open>q > 0\<close>; the result overflows when it reaches \<open>2 ^ 1024\<close>, the significand being at most \<open>2 ^ 53\<close>\<close>
  "round_b64_pos q =
     (let e0 = ilog2 q;
          e = max e0 (- 1022);
          ulp = pow2 (e - 52);
          m = round_half_even (q / ulp)
      in if 1024 \<le> e0 \<or> (e0 = 1023 \<and> m = 9007199254740992) then PInf
         else Finite (of_int m * ulp))"

definition fneg :: "pyfloat \<Rightarrow> pyfloat" where
  "fneg x = (case x of Finite q \<Rightarrow> Finite (- q) | PInf \<Rightarrow> NInf | NInf \<Rightarrow> PInf | NaN \<Rightarrow> NaN)"

definition round_b64 :: "rat \<Rightarrow> pyfloat" where
  "round_b64 q = (if q = 0 then Finite 0 else if 0 < q then round_b64_pos q else fneg (round_b64_pos (- q)))"

definition lower :: "char \<Rightarrow> char" where
  "lower c = (if 65 \<le> code c \<and> code c \<le> 90 then char_of (code c + 32) else c)"

definition float_number :: "string \<Rightarrow> error + pyfloat" where
  \<comment> \<open>\<^verbatim>\<open>[digitpart] "." digitpart | digitpart ["."]\<close>, then an optional exponent\<close>
  "float_number u =
     (case digitpart u of (ip, r1) \<Rightarrow>
        (case (case r1 of c # cs \<Rightarrow> if c = CHR ''.'' then (True, digitpart cs) else (False, [], r1)
                        | [] \<Rightarrow> (False, [], r1)) of
           (dot, fp, r2) \<Rightarrow>
             if ip = [] \<and> fp = [] then Inl ValueError
             else
               (case r2 of
                  [] \<Rightarrow> Inr (round_b64 (of_int (digits_val (ip @ fp)) * pow10 (- int (length fp))))
                | c # cs \<Rightarrow>
                    if c = CHR ''e'' \<or> c = CHR ''E'' then
                      (case split_sign cs of (eneg, v) \<Rightarrow>
                         (case digitpart v of (ed, r3) \<Rightarrow>
                            if ed \<noteq> [] \<and> r3 = []
                            then Inr (round_b64 (of_int (digits_val (ip @ fp)) *
                                   pow10 ((if eneg then - digits_val ed else digits_val ed)
                                          - int (length fp))))
                            else Inl ValueError))
                    else Inl ValueError)))"

definition py_float :: "string \<Rightarrow> error + pyfloat" where
  \<comment> \<open>\<^verbatim>\<open>float(s)\<close>\<close>
  "py_float s =
     (case split_sign (num_strip s) of (neg, u) \<Rightarrow>
        let w = map lower u in
        if w = ''inf'' \<or> w = ''infinity'' then Inr (if neg then NInf else PInf)
        else if w = ''nan'' then Inr NaN
        else (case float_number u of Inl e \<Rightarrow> Inl e | Inr x \<Rightarrow> Inr (if neg then fneg x else x)))"

definition fmul :: "pyfloat \<Rightarrow> pyfloat \<Rightarrow> pyfloat" where
  \<comment> \<open>\<^verbatim>\<open>x * y\<close> on floats\<close>
  "fmul x y =
     (case (x, y) of
        (NaN, _) \<Rightarrow> NaN
      | (_, NaN) \<Rightarrow> NaN
      | (Finite a, Finite b) \<Rightarrow> round_b64 (a * b)
      | (Finite a, PInf) \<Rightarrow> if a = 0 then NaN else if 0 < a then PInf else NInf
      | (Finite a, NInf) \<Rightarrow> if a = 0 then NaN else if 0 < a then NInf else PInf
      | (PInf, Finite b) \<Rightarrow> if b = 0 then NaN else if 0 < b then PInf else NInf
      | (NInf, Finite b) \<Rightarrow> if b = 0 then NaN else if 0 < b then NInf else PInf
      | (PInf, PInf) \<Rightarrow> PInf
      | (NInf, NInf) \<Rightarrow> PInf
      | (PInf, NInf) \<Rightarrow> NInf
      | (NInf, PInf) \<Rightarrow> NInf)"

definition fgt :: "pyfloat \<Rightarrow> pyfloat \<Rightarrow> bool" where
  \<comment> \<open>\<^verbatim>\<open>x > y\<close> on floats; every comparison with a NaN is false\<close>
  "fgt x y =
     (case (x, y) of
        (NaN, _) \<Rightarrow> False
      | (_, NaN) \<Rightarrow> False
      | (Finite a, Finite b) \<Rightarrow> b < a
      | (PInf, PInf) \<Rightarrow> False
      | (PInf, _) \<Rightarrow> True
      | (_, NInf) \<Rightarrow> (x \<noteq> NInf)
      | (_, _) \<Rightarrow> False)"

definition py_max :: "pyfloat list \<Rightarrow> pyfloat" where
  \<comment> \<open>\<^verbatim>\<open>max(xs)\<close> of a non-empty list: the first item that no later item exceeds\<close>
  "py_max xs = foldl (\<lambda>m x. if fgt x m then x else m) (hd xs) (tl xs)"

definition float_to_int :: "pyfloat \<Rightarrow> error + int" where
  \<comment> \<open>\<^verbatim>\<open>int(x)\<close> of a float truncates towards zero\<close>
  "float_to_int x =
     (case x of
        Finite q \<Rightarrow> Inr (if 0 \<le> q then \<lfloor>q\<rfloor> else - \<lfloor>- q\<rfloor>)
      | PInf \<Rightarrow> Inl OverflowError
      | NInf \<Rightarrow> Inl OverflowError
      | NaN \<Rightarrow> Inl ValueError)"

section \<open>The series and the state of a parse run\<close>

text \<open>
  Each series is a list of dictionaries with fixed keys, modelled as records.  A loss record
  has the key \<^verbatim>\<open>candidates\<close> only when it comes from a candidates line.
\<close>

record trendline_rec =
  tl_timestamp :: int
  tl_modified_trend :: pyfloat
  tl_threshold :: pyfloat
  tl_state :: string

record rtt_rec =
  rtt_timestamp :: int
  rtt_corrected_rtt :: int
  rtt_rtt_limit :: int
  rtt_above_limit :: bool

record loss_rec =
  loss_timestamp :: int
  loss_state :: int
  loss_bandwidth :: int
  loss_observations :: int
  loss_candidates_key :: "pyfloat list option"

record probe_rec =
  probe_timestamp :: int
  probe_cluster_id :: int
  probe_estimate :: int
  probe_source :: string

record decision_rec =
  dec_timestamp :: int
  dec_decision_reason :: string

record constraint_rec =
  ca_timestamp :: int
  ca_original :: int
  ca_upper_limit :: int
  ca_after_upper :: int
  ca_min_config :: int
  ca_final :: int
  ca_delay_limit :: int
  ca_receiver_limit :: int
  ca_max_config :: int

record limit_rec =
  lim_timestamp :: int
  lim_old_limit :: int
  lim_new_limit :: int
  lim_current_target :: int

record config_limit_rec =
  cfg_min_old :: int
  cfg_min_new :: int
  cfg_max_old :: int
  cfg_max_new :: int
  cfg_current_target :: int

record pushback_rec =
  pb_timestamp :: int
  pb_original_rate :: int
  pb_pushback_rate :: int
  pb_min_bitrate :: int
  pb_reduction :: int
  pb_reduction_ratio :: pyfloat

text \<open>
  \<open>data_dict\<close> is what \<^verbatim>\<open>parse_log_file\<close> returns, one series per key; the state of
  the loop adds the local variable \<^verbatim>\<open>last_timestamp\<close>.
\<close>

record data_dict =
  trendline_data :: "trendline_rec list"
  rtt_data :: "rtt_rec list"
  loss_data :: "loss_rec list"
  probe_data :: "probe_rec list"
  decision_data :: "decision_rec list"
  constraint_apply_data :: "constraint_rec list"
  delay_limit_data :: "limit_rec list"
  receiver_limit_data :: "limit_rec list"
  config_limit_data :: "config_limit_rec list"
  pushback_data :: "pushback_rec list"

record parse_state = data_dict +
  last_timestamp :: "int option"

definition init_state :: parse_state where
  "init_state = \<lparr>trendline_data = [], rtt_data = [], loss_data = [], probe_data = [],
     decision_data = [], constraint_apply_data = [], delay_limit_data = [],
     receiver_limit_data = [], config_limit_data = [], pushback_data = [],
     last_timestamp = None\<rparr>"

section \<open>One iteration of the loop of \<^verbatim>\<open>parse_log_file\<close>\<close>

definition int_group :: "string list \<Rightarrow> nat \<Rightarrow> error + int" where
  \<comment> \<open>\<^verbatim>\<open>int(m.group(i))\<close>\<close>
  "int_group gs i = py_int (group gs i)"

definition py_or :: "string option \<Rightarrow> string option \<Rightarrow> string option" where
  \<comment> \<open>\<^verbatim>\<open>a or b\<close> on values that are a string or \<^verbatim>\<open>None\<close>\<close>
  "py_or a b = (case a of Some s \<Rightarrow> if s \<noteq> [] then a else b | None \<Rightarrow> b)"

definition py_int_opt :: "string option \<Rightarrow> error + int" where
  "py_int_opt a = (case a of None \<Rightarrow> Inl TypeError | Some s \<Rightarrow> py_int s)"

definition update_timestamp :: "parse_state \<Rightarrow> string \<Rightarrow> error + parse_state" where
  \<comment> \<open>the timestamp resolver at the head of the loop body\<close>
  "update_timestamp st line =
     (case timestamp_search line of
        None \<Rightarrow> Inr st
      | Some (g1, g2) \<Rightarrow> ebind (py_int_opt (py_or g1 g2)) (\<lambda>t. Inr (st\<lparr>last_timestamp := Some t\<rparr>)))"

definition float_or_zero :: "string \<Rightarrow> pyfloat" where
  \<comment> \<open>\<^verbatim>\<open>try: v = float(s)\<close>, \<^verbatim>\<open>except: v = 0.0\<close>\<close>
  "float_or_zero s = (case py_float s of Inl e \<Rightarrow> Finite 0 | Inr x \<Rightarrow> x)"

definition on_trendline :: "parse_state \<Rightarrow> string list \<Rightarrow> error + parse_state" where
  "on_trendline st gs =
     ebind (int_group gs 1) (\<lambda>timestamp.
       let modified_trend = group gs 2;
           threshold = group gs 3;
           state = group gs 4;
           modified_trend_val = (if modified_trend \<noteq> ''nan'' then float_or_zero modified_trend else Finite 0);
           threshold_val = float_or_zero threshold
       in Inr (st\<lparr>trendline_data := trendline_data st @
            [\<lparr>tl_timestamp = timestamp, tl_modified_trend = modified_trend_val,
              tl_threshold = threshold_val, tl_state = state\<rparr>]\<rparr>))"

definition on_rtt :: "parse_state \<Rightarrow> string list \<Rightarrow> error + parse_state" where
  "on_rtt st gs =
     ebind (int_group gs 1) (\<lambda>timestamp.
     ebind (int_group gs 3) (\<lambda>corrected_rtt.
     ebind (int_group gs 4) (\<lambda>rtt_limit.
       let above_limit = (group gs 5 = ''true'')
       in Inr (st\<lparr>rtt_data := rtt_data st @
            [\<lparr>rtt_timestamp = timestamp, rtt_corrected_rtt = corrected_rtt,
              rtt_rtt_limit = rtt_limit, rtt_above_limit = above_limit\<rparr>]\<rparr>))))"

definition on_loss :: "parse_state \<Rightarrow> string list \<Rightarrow> error + parse_state" where
  "on_loss st gs =
     ebind (int_group gs 1) (\<lambda>timestamp.
     ebind (int_group gs 2) (\<lambda>state.
     ebind (int_group gs 3) (\<lambda>bandwidth.
     ebind (int_group gs 4) (\<lambda>observations.
       Inr (st\<lparr>loss_data := loss_data st @
            [\<lparr>loss_timestamp = timestamp, loss_state = state, loss_bandwidth = bandwidth,
              loss_observations = observations, loss_candidates_key = None\<rparr>]\<rparr>)))))"

fun split_on :: "char \<Rightarrow> string \<Rightarrow> string \<Rightarrow> string list" where
  \<comment> \<open>\<^verbatim>\<open>s.split(c)\<close>, with the piece read so far\<close>
  "split_on c cur [] = [cur]"
| "split_on c cur (x # xs) = (if x = c then cur # split_on c [] xs else split_on c (cur @ [x]) xs)"

definition py_strip :: "string \<Rightarrow> string" where
  "py_strip s = rev (dropWhile is_space (rev (dropWhile is_space s)))"

definition py_rstrip :: "char \<Rightarrow> string \<Rightarrow> string" where
  "py_rstrip c s = rev (dropWhile (\<lambda>x. x = c) (rev s))"

fun emap :: "('a \<Rightarrow> error + 'b) \<Rightarrow> 'a list \<Rightarrow> error + 'b list" where
  "emap f [] = Inr []"
| "emap f (x # xs) = ebind (f x) (\<lambda>y. ebind (emap f xs) (\<lambda>ys. Inr (y # ys)))"

definition candidate_entries :: "string \<Rightarrow> string list" where
  \<comment> \<open>the stripped pieces of the list that are not empty\<close>
  "candidate_entries s =
     filter (\<lambda>x. x \<noteq> []) (map (\<lambda>x. py_rstrip CHR '','' (py_strip x)) (split_on CHR '','' [] s))"

definition parse_candidates :: "string \<Rightarrow> error + pyfloat list" where
  \<comment> \<open>\<^verbatim>\<open>[float(x.strip().rstrip(',')) for x in s.split(',') if x.strip().rstrip(',')]\<close>\<close>
  "parse_candidates s = emap py_float (candidate_entries s)"

definition on_candidates :: "parse_state \<Rightarrow> string list \<Rightarrow> error + parse_state" where
  "on_candidates st gs =
     ebind (int_group gs 1) (\<lambda>timestamp.
     ebind (parse_candidates (group gs 2)) (\<lambda>candidates.
     ebind (if candidates \<noteq> [] then float_to_int (fmul (py_max candidates) (Finite 1000)) else Inr 0)
       (\<lambda>bandwidth.
       Inr (st\<lparr>loss_data := loss_data st @
            [\<lparr>loss_timestamp = timestamp, loss_state = - 1, loss_bandwidth = bandwidth,
              loss_observations = int (length candidates),
              loss_candidates_key = Some candidates\<rparr>]\<rparr>))))"

definition on_probe :: "string \<Rightarrow> parse_state \<Rightarrow> string list \<Rightarrow> error + parse_state" where
  \<comment> \<open>the two timestamped probe formats, which differ in the source tag only\<close>
  "on_probe src st gs =
     ebind (int_group gs 1) (\<lambda>timestamp.
     ebind (int_group gs 2) (\<lambda>cluster_id.
     ebind (int_group gs 3) (\<lambda>estimate.
       Inr (st\<lparr>probe_data := probe_data st @
            [\<lparr>probe_timestamp = timestamp, probe_cluster_id = cluster_id,
              probe_estimate = estimate, probe_source = src\<rparr>]\<rparr>))))"

definition on_probe_old :: "string \<Rightarrow> int \<Rightarrow> parse_state \<Rightarrow> string list \<Rightarrow> error + parse_state" where
  \<comment> \<open>the two legacy probe formats: the timestamp is the last one seen\<close>
  "on_probe_old src ts st gs =
     ebind (int_group gs 1) (\<lambda>cluster_id.
     ebind (int_group gs 2) (\<lambda>estimate.
       Inr (st\<lparr>probe_data := probe_data st @
            [\<lparr>probe_timestamp = ts, probe_cluster_id = cluster_id,
              probe_estimate = estimate, probe_source = src\<rparr>]\<rparr>)))"

definition legacy_guard :: "string list option \<Rightarrow> int option \<Rightarrow> (string list \<times> int) option" where
  \<comment> \<open>\<^verbatim>\<open>if m and last_timestamp\<close>: a match object is true; \<^verbatim>\<open>None\<close> and \<^verbatim>\<open>0\<close> are false\<close>
  "legacy_guard m ts =
     (case m of
        None \<Rightarrow> None
      | Some gs \<Rightarrow> (case ts of None \<Rightarrow> None | Some t \<Rightarrow> if t \<noteq> 0 then Some (gs, t) else None))"

definition on_decision :: "parse_state \<Rightarrow> string list \<Rightarrow> error + parse_state" where
  "on_decision st gs =
     ebind (int_group gs 1) (\<lambda>timestamp.
       let decision_reason = group gs 9
       in Inr (st\<lparr>decision_data := decision_data st @
            [\<lparr>dec_timestamp = timestamp, dec_decision_reason = decision_reason\<rparr>]\<rparr>))"

definition on_constraint :: "parse_state \<Rightarrow> string list \<Rightarrow> error + parse_state" where
  "on_constraint st gs =
     ebind (int_group gs 1) (\<lambda>timestamp.
     ebind (int_group gs 2) (\<lambda>original.
     ebind (int_group gs 3) (\<lambda>upper_limit.
     ebind (int_group gs 4) (\<lambda>after_upper.
     ebind (int_group gs 5) (\<lambda>min_config.
     ebind (int_group gs 6) (\<lambda>final.
     ebind (int_group gs 7) (\<lambda>delay_lim.
     ebind (int_group gs 8) (\<lambda>receiver_lim.
     ebind (int_group gs 9) (\<lambda>max_config.
       Inr (st\<lparr>constraint_apply_data := constraint_apply_data st @
            [\<lparr>ca_timestamp = timestamp, ca_original = original, ca_upper_limit = upper_limit,
              ca_after_upper = after_upper, ca_min_config = min_config, ca_final = final,
              ca_delay_limit = delay_lim, ca_receiver_limit = receiver_lim,
              ca_max_config = max_config\<rparr>]\<rparr>))))))))))"

definition limit_of :: "string list \<Rightarrow> error + limit_rec" where
  "limit_of gs =
     ebind (int_group gs 1) (\<lambda>timestamp.
     ebind (int_group gs 2) (\<lambda>old_limit.
     ebind (int_group gs 3) (\<lambda>new_limit.
     ebind (int_group gs 4) (\<lambda>current_target.
       Inr \<lparr>lim_timestamp = timestamp, lim_old_limit = old_limit, lim_new_limit = new_limit,
            lim_current_target = current_target\<rparr>))))"

definition on_delay_limit :: "parse_state \<Rightarrow> string list \<Rightarrow> error + parse_state" where
  "on_delay_limit st gs =
     ebind (limit_of gs) (\<lambda>r. Inr (st\<lparr>delay_limit_data := delay_limit_data st @ [r]\<rparr>))"

definition on_receiver_limit :: "parse_state \<Rightarrow> string list \<Rightarrow> error + parse_state" where
  "on_receiver_limit st gs =
     ebind (limit_of gs) (\<lambda>r. Inr (st\<lparr>receiver_limit_data := receiver_limit_data st @ [r]\<rparr>))"

definition on_pushback :: "parse_state \<Rightarrow> string list \<Rightarrow> error + parse_state" where
  "on_pushback st gs =
     ebind (int_group gs 1) (\<lambda>timestamp.
     ebind (int_group gs 2) (\<lambda>original_rate.
     ebind (int_group gs 3) (\<lambda>pushback_rate.
     ebind (int_group gs 4) (\<lambda>min_bitrate.
     ebind (int_group gs 5) (\<lambda>reduction.
     ebind (py_float (group gs 6)) (\<lambda>reduction_ratio.
       Inr (st\<lparr>pushback_data := pushback_data st @
            [\<lparr>pb_timestamp = timestamp, pb_original_rate = original_rate,
              pb_pushback_rate = pushback_rate, pb_min_bitrate = min_bitrate,
              pb_reduction = reduction, pb_reduction_ratio = reduction_ratio\<rparr>]\<rparr>)))))))"

text \<open>
  The classifier: the patterns are searched in the order of the source, and the first whose
  condition holds decides the line (\<^verbatim>\<open>continue\<close>).  The two legacy probe formats also
  need \<^verbatim>\<open>last_timestamp\<close> to be true.  A line that no pattern takes changes nothing.
  The registry's \<open>delay_bwe\<close> and \<open>config_limit\<close> are never searched.
\<close>

definition is_match :: "pattern \<Rightarrow> string \<Rightarrow> bool" where
  "is_match p line = (search p line \<noteq> None)"

definition classify :: "parse_state \<Rightarrow> string \<Rightarrow> error + parse_state" where
  "classify st line =
     (case search trendline line of Some gs \<Rightarrow> on_trendline st gs | None \<Rightarrow>
     (case search rtt_bwe line of Some gs \<Rightarrow> on_rtt st gs | None \<Rightarrow>
     (case search loss_bwe line of Some gs \<Rightarrow> on_loss st gs | None \<Rightarrow>
     (case search loss_candidates line of Some gs \<Rightarrow> on_candidates st gs | None \<Rightarrow>
     (case search probe_result line of Some gs \<Rightarrow> on_probe ''result'' st gs | None \<Rightarrow>
     (case search probe_success line of Some gs \<Rightarrow> on_probe ''success'' st gs | None \<Rightarrow>
     (case legacy_guard (search probe_result_old line) (last_timestamp st) of
        Some (gs, ts) \<Rightarrow> on_probe_old ''result_old'' ts st gs | None \<Rightarrow>
     (case legacy_guard (search probe_success_old line) (last_timestamp st) of
        Some (gs, ts) \<Rightarrow> on_probe_old ''success_old'' ts st gs | None \<Rightarrow>
     (case search decision line of Some gs \<Rightarrow> on_decision st gs | None \<Rightarrow>
     (case search constraint_apply line of Some gs \<Rightarrow> on_constraint st gs | None \<Rightarrow>
     (case search delay_limit line of Some gs \<Rightarrow> on_delay_limit st gs | None \<Rightarrow>
     (case search receiver_limit line of Some gs \<Rightarrow> on_receiver_limit st gs | None \<Rightarrow>
     (case search pushback line of Some gs \<Rightarrow> on_pushback st gs | None \<Rightarrow>
      Inr st)))))))))))))"

definition process_line :: "parse_state \<Rightarrow> string \<Rightarrow> error + parse_state" where
  "process_line st line = ebind (update_timestamp st line) (\<lambda>st'. classify st' line)"

fun parse_lines :: "parse_state \<Rightarrow> string list \<Rightarrow> error + parse_state" where
  \<comment> \<open>\<^verbatim>\<open>for line in f\<close>: an exception ends the run\<close>
  "parse_lines st [] = Inr st"
| "parse_lines st (line # rest) = ebind (process_line st line) (\<lambda>st'. parse_lines st' rest)"

section \<open>Reading the file\<close>

text \<open>
  \<^verbatim>\<open>open(path, 'r', encoding='utf-8')\<close> without \<^verbatim>\<open>errors=\<close> decodes strictly: a byte
  sequence that is not well-formed UTF-8 raises \<^verbatim>\<open>UnicodeDecodeError\<close>.  Text mode
  turns \<^verbatim>\<open>\r\n\<close> and \<^verbatim>\<open>\r\<close> into \<^verbatim>\<open>\n\<close>, and iterating the file gives the lines
  with their terminator.
\<close>

definition cont :: "int \<Rightarrow> bool" where
  "cont b = (128 \<le> b \<and> b < 192)"

fun utf8_cps :: "int list \<Rightarrow> int list option" where
  "utf8_cps [] = Some []"
| "utf8_cps (b # bs) =
     (if b < 128 then map_option (Cons b) (utf8_cps bs)
      else if 194 \<le> b \<and> b \<le> 223 then
        (case bs of
           c1 # r \<Rightarrow>
             if cont c1 then map_option (Cons ((b - 192) * 64 + (c1 - 128))) (utf8_cps r) else None
         | _ \<Rightarrow> None)
      else if 224 \<le> b \<and> b \<le> 239 then
        (case bs of
           c1 # c2 # r \<Rightarrow>
             let cp = (b - 224) * 4096 + (c1 - 128) * 64 + (c2 - 128)
             in if cont c1 \<and> cont c2 \<and> 2048 \<le> cp \<and> \<not> (55296 \<le> cp \<and> cp \<le> 57343)
                then map_option (Cons cp) (utf8_cps r) else None
         | _ \<Rightarrow> None)
      else if 240 \<le> b \<and> b \<le> 244 then
        (case bs of
           c1 # c2 # c3 # r \<Rightarrow>
             let cp = (b - 240) * 262144 + (c1 - 128) * 4096 + (c2 - 128) * 64 + (c3 - 128)
             in if cont c1 \<and> cont c2 \<and> cont c3 \<and> 65536 \<le> cp \<and> cp \<le> 1114111
                then map_option (Cons cp) (utf8_cps r) else None
         | _ \<Rightarrow> None)
      else None)"

definition decode_strict :: "8 word list \<Rightarrow> error + int list" where
  "decode_strict bytes =
     (case utf8_cps (map uint bytes) of None \<Rightarrow> Inl UnicodeDecodeError | Some cps \<Rightarrow> Inr cps)"

definition latin1_text :: "int list \<Rightarrow> string option" where
  \<comment> \<open>the text as a \<^typ>\<open>string\<close>, when all its code points are below U+0100\<close>
  "latin1_text cps = (if list_all (\<lambda>n. n < 256) cps then Some (map char_of cps) else None)"

fun universal_newlines :: "string \<Rightarrow> string" where
  "universal_newlines [] = []"
| "universal_newlines (c # cs) =
     (if c = CR then
        (case cs of
           d # ds \<Rightarrow> if d = LF then LF # universal_newlines ds else LF # universal_newlines cs
         | [] \<Rightarrow> [LF])
      else c # universal_newlines cs)"

fun iter_lines :: "string \<Rightarrow> string \<Rightarrow> string list" where
  \<comment> \<open>the lines of a text, with the line read so far\<close>
  "iter_lines cur [] = (if cur = [] then [] else [cur])"
| "iter_lines cur (c # cs) =
     (if c = LF then (cur @ [c]) # iter_lines [] cs else iter_lines (cur @ [c]) cs)"

definition file_lines :: "string \<Rightarrow> string list" where
  "file_lines text = iter_lines [] (universal_newlines text)"

section \<open>\<^verbatim>\<open>parse_log_file\<close>\<close>

definition parse_text :: "string \<Rightarrow> error + data_dict" where
  \<comment> \<open>the run on a decoded text: fresh series, \<^verbatim>\<open>last_timestamp = None\<close>, one pass\<close>
  "parse_text text =
     (case parse_lines init_state (file_lines text) of
        Inl e \<Rightarrow> Inl e
      | Inr st \<Rightarrow> Inr (data_dict.truncate st))"

definition parse_bytes :: "8 word list \<Rightarrow> (error + data_dict) option" where
  \<comment> \<open>the run on the bytes of the file; \<open>None\<close> when the text is outside the model\<close>
  "parse_bytes bytes =
     (case decode_strict bytes of
        Inl e \<Rightarrow> Some (Inl e)
      | Inr cps \<Rightarrow> map_option parse_text (latin1_text cps))"

text \<open>
  The analyzer object holds the path of the log (and the constant pattern registry); the
  files are a map from paths to contents.  The method reads the object and the file and
  assigns to neither, so the object it leaves is the one it found.
\<close>

record analyzer =
  log_file_path :: string

type_synonym filesystem = "string \<rightharpoonup> 8 word list"

definition parse_log_file :: "filesystem \<Rightarrow> analyzer \<Rightarrow> (error + data_dict) option \<times> analyzer" where
  "parse_log_file fs self =
     (case fs (log_file_path self) of
        None \<Rightarrow> (Some (Inl FileNotFoundError), self)
      | Some bytes \<Rightarrow> (parse_bytes bytes, self))"

section \<open>What \<^verbatim>\<open>plot_gcc_decision_metrics\<close> derives from the series\<close>

text \<open>
  Of the plotting method the model keeps the data it derives: the guard on empty input, the
  split of the loss series into estimates and candidates, the statistics of the estimates
  and the numeric decision column.  The drawing itself and the plot coordinate
  \<^verbatim>\<open>time_s\<close> are not modelled.
\<close>

definition reason_map :: "string \<rightharpoonup> int" where
  "reason_map = map_of [(''Hold'', 0), (''LossEstimate'', 1), (''ProbeResult'', 2),
     (''RttBackoff'', 3), (''DelayLimit'', 4)]"

definition decision_numeric :: "string \<Rightarrow> int" where
  \<comment> \<open>\<^verbatim>\<open>.map(reason_map).fillna(0)\<close> on one entry\<close>
  "decision_numeric r = (case reason_map r of None \<Rightarrow> 0 | Some v \<Rightarrow> v)"

definition decision_timeline :: "decision_rec list \<Rightarrow> (int \<times> int) list" where
  \<comment> \<open>the columns \<^verbatim>\<open>timestamp\<close> and \<^verbatim>\<open>decision_numeric\<close> of the decision frame\<close>
  "decision_timeline ds = map (\<lambda>d. (dec_timestamp d, decision_numeric (dec_decision_reason d))) ds"

definition estimates_df :: "loss_rec list \<Rightarrow> loss_rec list" where
  "estimates_df loss = filter (\<lambda>r. 0 \<le> loss_state r) loss"

definition candidates_df :: "loss_rec list \<Rightarrow> loss_rec list" where
  "candidates_df loss = filter (\<lambda>r. loss_state r = - 1) loss"

definition mean :: "int list \<Rightarrow> pyfloat" where
  \<comment> \<open>the mean of a non-empty integer column (exact sum, one rounding)\<close>
  "mean xs = round_b64 (of_int (sum_list xs) / of_nat (length xs))"

definition mode_first :: "int list \<Rightarrow> int" where
  \<comment> \<open>\<^verbatim>\<open>.mode().iloc[0]\<close>: the smallest of the most frequent values of a non-empty column\<close>
  "mode_first xs =
     (let best = filter (\<lambda>x. list_all (\<lambda>y. count_list xs y \<le> count_list xs x) xs) xs
      in fold min (tl best) (hd best))"

record loss_stats =
  avg_bandwidth :: pyfloat
  avg_observations :: pyfloat
  most_common_state :: int

definition loss_statistics :: "loss_rec list \<Rightarrow> loss_stats option" where
  \<comment> \<open>the statistics box of the loss panel, computed from \<^verbatim>\<open>estimates_df\<close> only\<close>
  "loss_statistics loss =
     (let est = estimates_df loss in
      if loss = [] \<or> est = [] then None
      else Some \<lparr>avg_bandwidth = (case mean (map loss_bandwidth est) of
                                     Finite m \<Rightarrow> round_b64 (m / 1000) | x \<Rightarrow> x),
                 avg_observations = mean (map loss_observations est),
                 most_common_state = mode_first (map loss_state est)\<rparr>)"

record plot_data =
  plot_estimates :: "loss_rec list"
  plot_candidates :: "loss_rec list"
  plot_loss_stats :: "loss_stats option"
  plot_decision :: "(int \<times> int) list"

definition plot_gcc_decision_metrics :: "data_dict \<Rightarrow> plot_data option" where
  \<comment> \<open>\<open>None\<close>: "Insufficient data to generate charts", the method returns early\<close>
  "plot_gcc_decision_metrics d =
     (if trendline_data d = [] \<and> rtt_data d = [] \<and> loss_data d = [] then None
      else Some \<lparr>plot_estimates = estimates_df (loss_data d),
                 plot_candidates = candidates_df (loss_data d),
                 plot_loss_stats = loss_statistics (loss_data d),
                 plot_decision = decision_timeline (decision_data d)\<rparr>)"

section \<open>Notions used to state the properties\<close>

definition empty_dict :: data_dict where
  \<comment> \<open>the result of a run that recognised nothing\<close>
  "empty_dict = \<lparr>trendline_data = [], rtt_data = [], loss_data = [], probe_data = [],
     decision_data = [], constraint_apply_data = [], delay_limit_data = [],
     receiver_limit_data = [], config_limit_data = [], pushback_data = []\<rparr>"

definition event_count :: "parse_state \<Rightarrow> nat" where
  \<comment> \<open>the number of events in all the series together\<close>
  "event_count st = length (trendline_data st) + length (rtt_data st) + length (loss_data st)
     + length (probe_data st) + length (decision_data st) + length (constraint_apply_data st)
     + length (delay_limit_data st) + length (receiver_limit_data st)
     + length (config_limit_data st) + length (pushback_data st)"


definition fresh :: "int option \<Rightarrow> parse_state" where
  \<comment> \<open>empty series, with a given last timestamp\<close>
  "fresh lt = init_state\<lparr>last_timestamp := lt\<rparr>"

definition join_series :: "parse_state \<Rightarrow> parse_state \<Rightarrow> parse_state" where
  \<comment> \<open>the series of the first state followed by those of the second, whose timestamp is kept\<close>
  "join_series st s = \<lparr>trendline_data = trendline_data st @ trendline_data s,
     rtt_data = rtt_data st @ rtt_data s, loss_data = loss_data st @ loss_data s,
     probe_data = probe_data st @ probe_data s, decision_data = decision_data st @ decision_data s,
     constraint_apply_data = constraint_apply_data st @ constraint_apply_data s,
     delay_limit_data = delay_limit_data st @ delay_limit_data s,
     receiver_limit_data = receiver_limit_data st @ receiver_limit_data s,
     config_limit_data = config_limit_data st @ config_limit_data s,
     pushback_data = pushback_data st @ pushback_data s,
     last_timestamp = last_timestamp s\<rparr>"

fun caps_of :: "pattern \<Rightarrow> cls list" where
  \<comment> \<open>the classes of the groups of a pattern, in order\<close>
  "caps_of [] = []"
| "caps_of (Lit l # ts) = caps_of ts"
| "caps_of (Cap c # ts) = c # caps_of ts"
| "caps_of (Gap # ts) = caps_of ts"

definition cap_ok :: "cls \<Rightarrow> string \<Rightarrow> bool" where
  \<comment> \<open>what a group \<^verbatim>\<open>(C+)\<close> can capture\<close>
  "cap_ok c g = (g \<noteq> [] \<and> list_all (in_cls c) g)"



fun runs_le :: "int \<Rightarrow> int \<Rightarrow> string \<Rightarrow> bool" where
  \<comment> \<open>no run of digits is longer than \<open>n\<close>, the run being read having \<open>k\<close> digits so far\<close>
  "runs_le n k [] = (k \<le> n)"
| "runs_le n k (c # cs) = (if is_digit c then runs_le n (k + 1) cs else k \<le> n \<and> runs_le n 0 cs)"

definition short_digit_runs :: "string \<Rightarrow> bool" where
  \<comment> \<open>every numeral of the line is within the limit of \<^verbatim>\<open>int()\<close>\<close>
  "short_digit_runs s = runs_le int_max_str_digits 0 s"



subsection \<open>Example lines\<close>

definition two_probe_records :: string where
  \<comment> \<open>a timestamped and a legacy probe result on one line\<close>
  "two_probe_records = ''[ProbeBWE-Result] Time: 1 ms, Cluster ID: 2, Final estimate: 3 bps [ProbeBWE-Result] Cluster ID: 4, Final estimate: 5 bps''"

definition trendline_then_probes :: string where
  \<comment> \<open>the same after a Trendline record\<close>
  "trendline_then_probes = ''[Trendline] Time: 1 ms, Modified trend: 1, Threshold: 2, State: a '' @ two_probe_records"

definition candidates_line :: string where
  "candidates_line = ''[LossBWE-Candidates] Time: 7 ms, Candidate Bandwidths (kbps): 100, 200, 300''"

definition trendline_then_candidates :: string where
  "trendline_then_candidates =
     ''[Trendline] Time: 1 ms, Modified trend: 1, Threshold: 2, State: a '' @ candidates_line"

definition blank_candidates_line :: string where
  "blank_candidates_line = ''[LossBWE-Candidates] Time: 7 ms, Candidate Bandwidths (kbps): , ,''"

definition word_candidates_line :: string where
  "word_candidates_line = ''[LossBWE-Candidates] Time: 7 ms, Candidate Bandwidths (kbps): abc''"

definition legacy_probe_line :: string where
  "legacy_probe_line = ''[ProbeBWE-Result] Cluster ID: 3, Final estimate: 5000 bps''"





definition all_reasons_dict :: data_dict where
  \<comment> \<open>one RTT record and a decision for each of the five reasons and for an unknown one\<close>
  "all_reasons_dict = empty_dict\<lparr>rtt_data := [\<lparr>rtt_timestamp = 7, rtt_corrected_rtt = 20,
       rtt_rtt_limit = 30, rtt_above_limit = False\<rparr>],
     decision_data := [\<lparr>dec_timestamp = 1, dec_decision_reason = ''Hold''\<rparr>,
       \<lparr>dec_timestamp = 2, dec_decision_reason = ''LossEstimate''\<rparr>,
       \<lparr>dec_timestamp = 3, dec_decision_reason = ''ProbeResult''\<rparr>,
       \<lparr>dec_timestamp = 4, dec_decision_reason = ''RttBackoff''\<rparr>,
       \<lparr>dec_timestamp = 5, dec_decision_reason = ''DelayLimit''\<rparr>,
       \<lparr>dec_timestamp = 6, dec_decision_reason = ''Probe''\<rparr>]\<rparr>"

definition scrambled_candidates_line :: string where
  \<comment> \<open>the three candidates in another order, each followed by a comma and a blank\<close>
  "scrambled_candidates_line = ''[LossBWE-Candidates] Time: 7 ms, Candidate Bandwidths (kbps): 300, 100, 200, ''"



section \<open>Properties of the matcher and of the conversions\<close>

lemma digit_not_special:
  "is_digit c \<Longrightarrow> \<not> is_num_space c \<and> c \<noteq> CHR ''-'' \<and> c \<noteq> CHR ''+'' \<and> c \<noteq> CHR ''_''
     \<and> c \<noteq> CHR '' '' \<and> c \<noteq> CHR ''['' \<and> c \<noteq> LF"
  by (auto simp: is_digit_def is_num_space_def code_def LF_def Let_def)


lemma strip_prefix_SomeD: "strip_prefix l s = Some r \<Longrightarrow> s = l @ r"
  by (induction l s rule: strip_prefix.induct) (auto split: if_splits)

lemma greedy_SomeD:
  "greedy c k acc s = Some v \<Longrightarrow>
   \<exists>w r. s = w @ r \<and> list_all (in_cls c) w \<and> acc @ w \<noteq> [] \<and> k (acc @ w) r = Some v"
proof (induction s arbitrary: acc)
  case Nil
  then show ?case by (auto split: if_splits)
next
  case (Cons x xs)
  show ?case
  proof (cases "in_cls c x \<and> greedy c k (acc @ [x]) xs \<noteq> None")
    case True
    with Cons.prems have "greedy c k (acc @ [x]) xs = Some v" by auto
    from Cons.IH [OF this] obtain w r where
      "xs = w @ r" "list_all (in_cls c) w" "(acc @ [x]) @ w \<noteq> []" "k ((acc @ [x]) @ w) r = Some v"
      by blast
    with True show ?thesis
      by (intro exI [of _ "x # w"] exI [of _ r]) simp
  next
    case False
    with Cons.prems have "acc \<noteq> []" "k acc (x # xs) = Some v"
      by (auto split: if_splits option.splits)
    then show ?thesis
      by (intro exI [of _ "[]"] exI [of _ "x # xs"]) simp
  qed
qed

lemma lazy_SomeD:
  "lazy c k s = Some v \<Longrightarrow> \<exists>w r. s = w @ r \<and> list_all (in_cls c) w \<and> k r = Some v"
proof (induction s)
  case Nil
  then show ?case by auto
next
  case (Cons x xs)
  show ?case
  proof (cases "k (x # xs)")
    case None
    with Cons.prems have "in_cls c x" "lazy c k xs = Some v" by (auto split: if_splits)
    from Cons.IH [OF this(2)] obtain w r where "xs = w @ r" "list_all (in_cls c) w" "k r = Some v"
      by blast
    with \<open>in_cls c x\<close> show ?thesis
      by (intro exI [of _ "x # w"] exI [of _ r]) simp
  next
    case (Some a)
    with Cons.prems show ?thesis
      by (intro exI [of _ "[]"] exI [of _ "x # xs"]) simp
  qed
qed

lemma match_here_caps:
  "match_here p s = Some (gs, r) \<Longrightarrow> list_all2 cap_ok (caps_of p) gs"
proof (induction p arbitrary: s gs r)
  case Nil
  then show ?case by simp
next
  case (Cons t ts)
  show ?case
  proof (cases t)
    case (Lit l)
    with Cons show ?thesis by (auto split: option.splits)
  next
    case (Cap c)
    with Cons.prems
    have "greedy c (\<lambda>w r. map_option (\<lambda>(gs, r'). (w # gs, r')) (match_here ts r)) [] s = Some (gs, r)"
      by simp
    from greedy_SomeD [OF this] obtain w r0 where
      w: "list_all (in_cls c) w" "w \<noteq> []"
      and m: "map_option (\<lambda>(gs, r'). (w # gs, r')) (match_here ts r0) = Some (gs, r)"
      by auto
    from m obtain gs' where "match_here ts r0 = Some (gs', r)" "gs = w # gs'" by auto
    with Cons.IH w Cap show ?thesis by (auto simp: cap_ok_def)
  next
    case Gap
    with Cons.prems have "lazy AnyChar (match_here ts) s = Some (gs, r)" by simp
    from lazy_SomeD [OF this] obtain r0 where "match_here ts r0 = Some (gs, r)" by blast
    with Cons.IH Gap show ?thesis by simp
  qed
qed

lemma search_SomeD: "search p s = Some gs \<Longrightarrow> \<exists>a m r. s = a @ m \<and> match_here p m = Some (gs, r)"
proof (induction p s rule: search.induct)
  case (1 p)
  then show ?case by auto
next
  case (2 p x xs)
  show ?case
  proof (cases "match_here p (x # xs)")
    case None
    with 2 obtain a m r where "xs = a @ m" "match_here p m = Some (gs, r)" by auto
    then show ?thesis by (intro exI [of _ "x # a"] exI [of _ m] exI [of _ r]) simp
  next
    case (Some v)
    obtain gs' r where v: "v = (gs', r)" by (cases v)
    with Some "2.prems" have "match_here p (x # xs) = Some (gs, r)" by simp
    then show ?thesis by (intro exI [of _ "[]"] exI [of _ "x # xs"] exI [of _ r]) simp
  qed
qed

lemma match_here_infix:
  "match_here p s = Some (gs, r) \<Longrightarrow> g \<in> set gs \<Longrightarrow> \<exists>a b. s = a @ g @ b"
proof (induction p arbitrary: s gs r)
  case Nil
  then show ?case by simp
next
  case (Cons t ts)
  show ?case
  proof (cases t)
    case (Lit l)
    with Cons.prems obtain s' where s': "strip_prefix l s = Some s'" "match_here ts s' = Some (gs, r)"
      by (auto split: option.splits)
    from Cons.IH [OF s'(2) Cons.prems(2)] obtain a b where "s' = a @ g @ b" by blast
    with strip_prefix_SomeD [OF s'(1)] show ?thesis by (intro exI [of _ "l @ a"] exI [of _ b]) simp
  next
    case (Cap c)
    with Cons.prems
    have "greedy c (\<lambda>w r. map_option (\<lambda>(gs, r'). (w # gs, r')) (match_here ts r)) [] s = Some (gs, r)"
      by simp
    from greedy_SomeD [OF this] obtain w r0 where
      w: "s = w @ r0"
      and m: "map_option (\<lambda>(gs, r'). (w # gs, r')) (match_here ts r0) = Some (gs, r)"
      by auto
    from m obtain gs' where gs': "match_here ts r0 = Some (gs', r)" "gs = w # gs'" by auto
    show ?thesis
    proof (cases "g = w")
      case True
      with w show ?thesis by (intro exI [of _ "[]"] exI [of _ r0]) simp
    next
      case False
      with gs' Cons.prems(2) have "g \<in> set gs'" by simp
      from Cons.IH [OF gs'(1) this] obtain a b where "r0 = a @ g @ b" by blast
      with w show ?thesis by (intro exI [of _ "w @ a"] exI [of _ b]) simp
    qed
  next
    case Gap
    with Cons.prems have "lazy AnyChar (match_here ts) s = Some (gs, r)" by simp
    from lazy_SomeD [OF this] obtain w r0 where w: "s = w @ r0" "match_here ts r0 = Some (gs, r)"
      by blast
    from Cons.IH [OF w(2) Cons.prems(2)] obtain a b where "r0 = a @ g @ b" by blast
    with w show ?thesis by (intro exI [of _ "w @ a"] exI [of _ b]) simp
  qed
qed

lemma search_infix: "search p s = Some gs \<Longrightarrow> g \<in> set gs \<Longrightarrow> \<exists>a b. s = a @ g @ b"
proof -
  assume "search p s = Some gs" and g: "g \<in> set gs"
  from search_SomeD [OF this(1)] obtain a0 m r where m: "s = a0 @ m" "match_here p m = Some (gs, r)"
    by blast
  from match_here_infix [OF m(2) g] obtain a b where "m = a @ g @ b" by blast
  with m show ?thesis by (intro exI [of _ "a0 @ a"] exI [of _ b]) simp
qed

lemma runs_le_bound: "runs_le n k s \<Longrightarrow> k \<le> n"
proof (induction s arbitrary: k)
  case Nil
  then show ?case by simp
next
  case (Cons c cs)
  then show ?case by (cases "is_digit c") (auto dest: Cons.IH)
qed

lemma runs_le_digits: "list_all is_digit g \<Longrightarrow> runs_le n k (g @ s) \<Longrightarrow> k + int (length g) \<le> n"
proof (induction g arbitrary: k)
  case Nil
  then show ?case by (simp add: runs_le_bound)
next
  case (Cons c g)
  then have "runs_le n (k + 1) (g @ s)" "list_all is_digit g" by simp_all
  from Cons.IH [OF this(2,1)] show ?case by simp
qed

lemma runs_le_suffix: "0 \<le> k \<Longrightarrow> runs_le n k (a @ s) \<Longrightarrow> \<exists>k'. 0 \<le> k' \<and> runs_le n k' s"
proof (induction a arbitrary: k)
  case Nil
  then show ?case by auto
next
  case (Cons c a)
  show ?case
  proof (cases "is_digit c")
    case True
    with Cons.prems have "0 \<le> k + 1" "runs_le n (k + 1) (a @ s)" by simp_all
    from Cons.IH [OF this] show ?thesis .
  next
    case False
    with Cons.prems have "runs_le n 0 (a @ s)" by simp
    from Cons.IH [OF _ this] show ?thesis by simp
  qed
qed

lemma short_runs_infix:
  assumes "short_digit_runs (a @ g @ b)" and "list_all is_digit g"
  shows "int (length g) \<le> int_max_str_digits"
proof -
  from assms(1) have "runs_le int_max_str_digits 0 (a @ g @ b)" by (simp add: short_digit_runs_def)
  from runs_le_suffix [OF _ this] obtain k' where k': "0 \<le> k'" "runs_le int_max_str_digits k' (g @ b)"
    by auto
  from runs_le_digits [OF assms(2) k'(2)] k'(1) show ?thesis by simp
qed

lemma search_caps: "search p s = Some gs \<Longrightarrow> list_all2 cap_ok (caps_of p) gs"
  using search_SomeD match_here_caps by blast

lemma digitpart_digits: "list_all is_digit ds \<Longrightarrow> digitpart ds = (ds, [])"
proof (induction ds rule: digitpart.induct)
  case 1
  then show ?case by simp
next
  case (2 c cs)
  then show ?case
    by (cases cs; cases "tl cs") (auto simp: digit_not_special)
qed

lemma num_strip_digits: "ds \<noteq> [] \<Longrightarrow> list_all is_digit ds \<Longrightarrow> num_strip ds = ds"
proof -
  assume a: "ds \<noteq> []" "list_all is_digit ds"
  then have h: "\<not> is_num_space (hd ds)" "\<not> is_num_space (last ds)"
    by (auto simp: list_all_iff digit_not_special)
  from a h have "dropWhile is_num_space ds = ds" by (cases ds) auto
  moreover from a h have "dropWhile is_num_space (rev ds) = rev ds"
    by (cases "rev ds") (auto simp: last_rev hd_rev [symmetric])
  ultimately show ?thesis by (simp add: num_strip_def)
qed

lemma py_int_digits_eq:
  assumes "cap_ok Digit ds"
  shows "py_int ds = (if int (length ds) \<le> int_max_str_digits then Inr (digits_val ds) else Inl ValueError)"
proof -
  from assms have a: "ds \<noteq> []" "list_all is_digit ds"
    by (auto simp: cap_ok_def list_all_iff)
  then have "split_sign ds = (False, ds)"
    by (cases ds) (auto simp: split_sign_def digit_not_special)
  with a show ?thesis
    by (simp add: py_int_def num_strip_digits digitpart_digits)
qed

lemma py_int_digits:
  assumes "cap_ok Digit ds" and "int (length ds) \<le> int_max_str_digits"
  shows "py_int ds = Inr (digits_val ds)"
  using assms by (simp add: py_int_digits_eq)

lemma timestamp_here_SomeD:
  assumes "timestamp_here s = Some (g1, g2)"
  shows "\<exists>d a b. cap_ok Digit d \<and> s = a @ d @ b
           \<and> ((g1 = Some d \<and> g2 = None) \<or> (g1 = None \<and> g2 = Some d))"
proof (cases "match_here time_form s")
  case (Some v)
  obtain gs r where v: "v = (gs, r)" by (cases v)
  from match_here_caps [of time_form s gs r] Some v
  obtain d where d: "gs = [d]" "cap_ok Digit d"
    by (auto simp: time_form_def list_all2_Cons1)
  from match_here_infix [of time_form s gs r d] Some v d obtain a b where "s = a @ d @ b" by auto
  with assms Some v d show ?thesis by (auto simp: timestamp_here_def group_def)
next
  case None
  with assms obtain gs r where m: "match_here at_form s = Some (gs, r)"
    by (auto simp: timestamp_here_def split: option.splits)
  from match_here_caps [OF m]
  obtain d where d: "gs = [d]" "cap_ok Digit d"
    by (auto simp: at_form_def list_all2_Cons1)
  from match_here_infix [OF m, of d] d obtain a b where "s = a @ d @ b" by auto
  with assms None m d show ?thesis by (auto simp: timestamp_here_def group_def)
qed

lemma timestamp_search_SomeD:
  "timestamp_search s = Some (g1, g2) \<Longrightarrow>
   \<exists>d a b. cap_ok Digit d \<and> s = a @ d @ b
      \<and> ((g1 = Some d \<and> g2 = None) \<or> (g1 = None \<and> g2 = Some d))"
proof (induction s)
  case Nil
  then show ?case by (auto dest: timestamp_here_SomeD)
next
  case (Cons x xs)
  show ?case
  proof (cases "timestamp_here (x # xs)")
    case None
    with Cons obtain d a b where
      "cap_ok Digit d" "xs = a @ d @ b" "(g1 = Some d \<and> g2 = None) \<or> (g1 = None \<and> g2 = Some d)"
      by auto
    then show ?thesis by (intro exI [of _ d] exI [of _ "x # a"] exI [of _ b]) simp
  next
    case (Some v)
    with Cons.prems have "timestamp_here (x # xs) = Some (g1, g2)" by simp
    from timestamp_here_SomeD [OF this] show ?thesis .
  qed
qed

lemma update_timestamp_result:
  assumes "short_digit_runs line"
  shows "\<exists>lt. update_timestamp st line = Inr (st\<lparr>last_timestamp := lt\<rparr>)
        \<and> (timestamp_search line = None \<longrightarrow> lt = last_timestamp st)"
proof (cases "timestamp_search line")
  case None
  then have "update_timestamp st line = Inr (st\<lparr>last_timestamp := last_timestamp st\<rparr>)"
    by (simp add: update_timestamp_def)
  with None show ?thesis by blast
next
  case (Some v)
  obtain g1 g2 where v: "v = (g1, g2)" by (cases v)
  from timestamp_search_SomeD Some v obtain d a b where
    d: "cap_ok Digit d" "line = a @ d @ b"
       "(g1 = Some d \<and> g2 = None) \<or> (g1 = None \<and> g2 = Some d)"
    by blast
  from d(1) have "list_all is_digit d" by (auto simp: cap_ok_def list_all_iff)
  with short_runs_infix assms d(2) have n: "int (length d) \<le> int_max_str_digits" by blast
  from d have "py_or g1 g2 = Some d" by (auto simp: py_or_def cap_ok_def)
  with Some v d n have "update_timestamp st line = Inr (st\<lparr>last_timestamp := Some (digits_val d)\<rparr>)"
    by (simp add: update_timestamp_def py_int_opt_def py_int_digits ebind_def)
  with Some show ?thesis by auto
qed

lemma search_int_group:
  assumes "search p line = Some gs" and "short_digit_runs line"
    and "0 < i" and "i \<le> length (caps_of p)" and "caps_of p ! (i - 1) = Digit"
  shows "int_group gs i = Inr (digits_val (group gs i))"
proof -
  from search_caps [OF assms(1)] have c: "list_all2 cap_ok (caps_of p) gs" .
  from assms(3,4) have i: "i - 1 < length (caps_of p)" by simp
  from list_all2_nthD [OF c i] assms(5) have k: "cap_ok Digit (gs ! (i - 1))" by simp
  from c i have "gs ! (i - 1) \<in> set gs" by (auto simp: list_all2_lengthD [symmetric])
  from search_infix [OF assms(1) this] obtain a b where "line = a @ gs ! (i - 1) @ b" by blast
  with short_runs_infix assms(2) k have "int (length (gs ! (i - 1))) \<le> int_max_str_digits"
    by (auto simp: cap_ok_def list_all_iff)
  with k show ?thesis by (simp add: int_group_def group_def py_int_digits)
qed

lemma probe_result_groups:
  assumes "search probe_result line = Some gs" and "short_digit_runs line"
  shows "on_probe src st gs = Inr (st\<lparr>probe_data := probe_data st @
            [\<lparr>probe_timestamp = digits_val (group gs 1), probe_cluster_id = digits_val (group gs 2),
              probe_estimate = digits_val (group gs 3), probe_source = src\<rparr>]\<rparr>)"
proof -
  have "int_group gs 1 = Inr (digits_val (group gs 1))"
       "int_group gs 2 = Inr (digits_val (group gs 2))"
       "int_group gs 3 = Inr (digits_val (group gs 3))"
    using search_int_group [OF assms] by (simp_all add: probe_result_def)
  then show ?thesis by (simp add: on_probe_def ebind_def)
qed

lemma handler_counts:
  "on_trendline st gs = Inr st1 \<Longrightarrow> event_count st1 = Suc (event_count st)"
  "on_rtt st gs = Inr st1 \<Longrightarrow> event_count st1 = Suc (event_count st)"
  "on_loss st gs = Inr st1 \<Longrightarrow> event_count st1 = Suc (event_count st)"
  "on_candidates st gs = Inr st1 \<Longrightarrow> event_count st1 = Suc (event_count st)"
  "on_probe src st gs = Inr st1 \<Longrightarrow> event_count st1 = Suc (event_count st)"
  "on_probe_old src ts st gs = Inr st1 \<Longrightarrow> event_count st1 = Suc (event_count st)"
  "on_decision st gs = Inr st1 \<Longrightarrow> event_count st1 = Suc (event_count st)"
  "on_constraint st gs = Inr st1 \<Longrightarrow> event_count st1 = Suc (event_count st)"
  "on_delay_limit st gs = Inr st1 \<Longrightarrow> event_count st1 = Suc (event_count st)"
  "on_receiver_limit st gs = Inr st1 \<Longrightarrow> event_count st1 = Suc (event_count st)"
  "on_pushback st gs = Inr st1 \<Longrightarrow> event_count st1 = Suc (event_count st)"
  by (auto simp: on_trendline_def on_rtt_def on_loss_def on_candidates_def on_probe_def
      on_probe_old_def on_decision_def on_constraint_def on_delay_limit_def
      on_receiver_limit_def on_pushback_def limit_of_def ebind_def event_count_def Let_def
      split: sum.splits)

lemma classify_count:
  "classify st line = Inr st1 \<Longrightarrow> event_count st1 \<le> Suc (event_count st)"
  unfolding classify_def
  by (auto split: option.splits prod.splits dest: handler_counts)

lemma update_timestamp_count:
  "update_timestamp st line = Inr st1 \<Longrightarrow> event_count st1 = event_count st"
  by (auto simp: update_timestamp_def ebind_def event_count_def split: option.splits sum.splits)

lemma process_line_count:
  assumes "process_line st line = Inr st1"
  shows "event_count st1 \<le> Suc (event_count st)"
proof -
  from assms obtain st0 where "update_timestamp st line = Inr st0" "classify st0 line = Inr st1"
    by (auto simp: process_line_def ebind_def split: sum.splits)
  with classify_count update_timestamp_count show ?thesis by metis
qed

lemma candidates_123: "parse_candidates ''100, 200, 300'' = Inr [Finite 100, Finite 200, Finite 300]"
  by code_simp

lemma estimates_ignore_candidates:
  "estimates_df (filter (\<lambda>r. loss_state r \<noteq> - 1) loss) = estimates_df loss"
  by (induction loss) (auto simp: estimates_df_def)

lemma loss_statistics_ignore_candidates:
  "loss_statistics (filter (\<lambda>r. loss_state r \<noteq> - 1) loss) = loss_statistics loss"
proof (cases "estimates_df loss = []")
  case True
  then show ?thesis by (simp add: loss_statistics_def estimates_ignore_candidates)
next
  case False
  then have "loss \<noteq> []" by (auto simp: estimates_df_def)
  moreover have "filter (\<lambda>r. loss_state r \<noteq> - 1) loss \<noteq> []"
  proof
    assume "filter (\<lambda>r. loss_state r \<noteq> - 1) loss = []"
    then have "estimates_df (filter (\<lambda>r. loss_state r \<noteq> - 1) loss) = []"
      by (simp add: estimates_df_def)
    with False show False by (simp add: estimates_ignore_candidates)
  qed
  ultimately have "loss \<noteq> []" "filter (\<lambda>r. loss_state r \<noteq> - 1) loss \<noteq> []" by auto
  with False show ?thesis by (simp add: loss_statistics_def estimates_ignore_candidates)
qed

lemma split_on_blank:
  "list_all is_space cur \<Longrightarrow> list_all (\<lambda>c. c = CHR '','' \<or> is_space c) s \<Longrightarrow>
   list_all (list_all is_space) (split_on CHR '','' cur s)"
  by (induction s arbitrary: cur) auto

lemma py_strip_blank: "list_all is_space p \<Longrightarrow> py_strip p = []"
  by (auto simp: py_strip_def list_all_iff dest: set_dropWhileD)

lemma parse_candidates_blank:
  assumes "list_all (\<lambda>c. c = CHR '','' \<or> is_space c) s"
  shows "parse_candidates s = Inr []"
proof -
  from split_on_blank [OF _ assms, of "[]"]
  have "list_all (list_all is_space) (split_on CHR '','' [] s)" by simp
  then have "candidate_entries s = []"
    by (auto simp: candidate_entries_def filter_empty_conv list_all_iff py_strip_blank py_rstrip_def)
  then show ?thesis by (simp add: parse_candidates_def)
qed

lemma candidates_timestamp:
  assumes "search loss_candidates line = Some [ts, txt]" and "short_digit_runs line"
  shows "int_group [ts, txt] 1 = Inr (digits_val ts)"
  using search_int_group [OF assms, of 1] by (simp add: loss_candidates_def group_def)































lemma join_assoc: "join_series (join_series a b) c = join_series a (join_series b c)"
  by (simp add: join_series_def)

lemma join_timestamp: "join_series (st\<lparr>last_timestamp := x\<rparr>) s = join_series st s"
  by (simp add: join_series_def)

lemma handler_frame:
  "on_trendline st gs = map_sum id (join_series st) (on_trendline (fresh (last_timestamp st)) gs)"
  "on_rtt st gs = map_sum id (join_series st) (on_rtt (fresh (last_timestamp st)) gs)"
  "on_loss st gs = map_sum id (join_series st) (on_loss (fresh (last_timestamp st)) gs)"
  "on_candidates st gs = map_sum id (join_series st) (on_candidates (fresh (last_timestamp st)) gs)"
  "on_probe src st gs = map_sum id (join_series st) (on_probe src (fresh (last_timestamp st)) gs)"
  "on_probe_old src ts st gs = map_sum id (join_series st) (on_probe_old src ts (fresh (last_timestamp st)) gs)"
  "on_decision st gs = map_sum id (join_series st) (on_decision (fresh (last_timestamp st)) gs)"
  "on_constraint st gs = map_sum id (join_series st) (on_constraint (fresh (last_timestamp st)) gs)"
  "on_delay_limit st gs = map_sum id (join_series st) (on_delay_limit (fresh (last_timestamp st)) gs)"
  "on_receiver_limit st gs = map_sum id (join_series st) (on_receiver_limit (fresh (last_timestamp st)) gs)"
  "on_pushback st gs = map_sum id (join_series st) (on_pushback (fresh (last_timestamp st)) gs)"
  by (auto simp: on_trendline_def on_rtt_def on_loss_def on_candidates_def on_probe_def
      on_probe_old_def on_decision_def on_constraint_def on_delay_limit_def
      on_receiver_limit_def on_pushback_def limit_of_def ebind_def Let_def
      join_series_def fresh_def init_state_def split: sum.splits)

lemma classify_frame:
  "classify st line = map_sum id (join_series st) (classify (fresh (last_timestamp st)) line)"
proof -
  have t: "last_timestamp (fresh (last_timestamp st)) = last_timestamp st"
    by (simp add: fresh_def)
  have e: "Inr st = map_sum id (join_series st) (Inr (fresh (last_timestamp st)))"
    by (simp add: join_series_def fresh_def init_state_def)
  show ?thesis
    unfolding classify_def t
    by (auto split: option.splits prod.splits simp: handler_frame [where st = st] e [symmetric]
        simp del: map_sum.simps)
qed

lemma update_timestamp_shape:
  "\<exists>r. \<forall>st. update_timestamp st line =
     (case r of Inl e \<Rightarrow> Inl e | Inr None \<Rightarrow> Inr st
      | Inr (Some t) \<Rightarrow> Inr (st\<lparr>last_timestamp := Some t\<rparr>))"
proof (cases "timestamp_search line")
  case None
  then show ?thesis by (intro exI [of _ "Inr None"]) (simp add: update_timestamp_def)
next
  case (Some v)
  obtain g1 g2 where v: "v = (g1, g2)" by (cases v)
  show ?thesis
  proof (cases "py_int_opt (py_or g1 g2)")
    case (Inl e)
    with Some v show ?thesis
      by (intro exI [of _ "Inl e"]) (simp add: update_timestamp_def ebind_def)
  next
    case (Inr t)
    with Some v show ?thesis
      by (intro exI [of _ "Inr (Some t)"]) (simp add: update_timestamp_def ebind_def)
  qed
qed

lemma join_timestamp_fun: "join_series (st\<lparr>last_timestamp := x\<rparr>) = join_series st"
  by (rule ext) (simp add: join_timestamp)

lemma process_line_frame:
  "process_line st line = map_sum id (join_series st) (process_line (fresh (last_timestamp st)) line)"
proof -
  from update_timestamp_shape obtain r where
    r: "\<And>s. update_timestamp s line =
     (case r of Inl e \<Rightarrow> Inl e | Inr None \<Rightarrow> Inr s
      | Inr (Some t) \<Rightarrow> Inr (s\<lparr>last_timestamp := Some t\<rparr>))"
    by blast
  show ?thesis
  proof (cases r)
    case (Inl e)
    with r show ?thesis by (simp add: process_line_def ebind_def)
  next
    case (Inr opt)
    show ?thesis
    proof (cases opt)
      case None
      with Inr r have "process_line s line = classify s line" for s
        by (simp add: process_line_def ebind_def)
      with classify_frame [of st line] show ?thesis by simp
    next
      case (Some t)
      with Inr r have p: "process_line s line = classify (s\<lparr>last_timestamp := Some t\<rparr>) line" for s
        by (simp add: process_line_def ebind_def)
      have f: "(fresh (last_timestamp st))\<lparr>last_timestamp := Some t\<rparr> = fresh (Some t)"
        by (simp add: fresh_def)
      from classify_frame [of "st\<lparr>last_timestamp := Some t\<rparr>" line]
      have "classify (st\<lparr>last_timestamp := Some t\<rparr>) line
          = map_sum id (join_series st) (classify (fresh (Some t)) line)"
        by (simp add: join_timestamp_fun)
      with p f show ?thesis by simp
    qed
  qed
qed

lemma parse_lines_frame:
  "parse_lines st ls = map_sum id (join_series st) (parse_lines (fresh (last_timestamp st)) ls)"
proof (induction ls arbitrary: st)
  case Nil
  show ?case by (simp add: join_series_def fresh_def init_state_def)
next
  case (Cons l ls)
  show ?case
  proof (cases "process_line (fresh (last_timestamp st)) l")
    case (Inl e)
    with process_line_frame [of st l] show ?thesis by (simp add: ebind_def)
  next
    case (Inr s1)
    with process_line_frame [of st l] have p: "process_line st l = Inr (join_series st s1)" by simp
    have t: "last_timestamp (join_series st s1) = last_timestamp s1" by (simp add: join_series_def)
    from p have "parse_lines st (l # ls) = parse_lines (join_series st s1) ls" by (simp add: ebind_def)
    also have "\<dots> = map_sum id (join_series (join_series st s1)) (parse_lines (fresh (last_timestamp s1)) ls)"
      using Cons.IH [of "join_series st s1"] by (simp only: t)
    also have "\<dots> = map_sum id (join_series st) (map_sum id (join_series s1) (parse_lines (fresh (last_timestamp s1)) ls))"
      by (cases "parse_lines (fresh (last_timestamp s1)) ls") (simp_all add: join_assoc)
    also have "\<dots> = map_sum id (join_series st) (parse_lines s1 ls)"
      using Cons.IH [of s1] by (simp add: id_def)
    also have "\<dots> = map_sum id (join_series st) (parse_lines (fresh (last_timestamp st)) (l # ls))"
      using Inr by (simp add: ebind_def)
    finally show ?thesis .
  qed
qed

lemma finite_max3: "py_max [Finite a, Finite b, Finite c] = Finite (max (max a b) c)"
  by (simp add: py_max_def fgt_def max_def)

lemma in_three: "x \<in> {Finite 100, Finite 200, Finite 300} \<Longrightarrow>
  \<exists>a. x = Finite a \<and> (a = 100 \<or> a = 200 \<or> a = 300)"
  by blast

lemma max_of_three:
  assumes "length cs = 3" and "set cs = {Finite 100, Finite 200, Finite 300}"
  shows "py_max cs = Finite 300"
proof -
  from assms(1) obtain x y z where cs: "cs = [x, y, z]"
    by (auto simp: length_Suc_conv numeral_3_eq_3)
  have "x \<in> set cs" "y \<in> set cs" "z \<in> set cs" by (simp_all add: cs)
  then have "x \<in> {Finite 100, Finite 200, Finite 300}" "y \<in> {Finite 100, Finite 200, Finite 300}"
    "z \<in> {Finite 100, Finite 200, Finite 300}" unfolding assms(2) .
  with in_three obtain a b c where f: "x = Finite a" "y = Finite b" "z = Finite c"
    and r: "a = 100 \<or> a = 200 \<or> a = 300" "b = 100 \<or> b = 200 \<or> b = 300"
      "c = 100 \<or> c = 200 \<or> c = 300"
    by metis
  have "Finite 300 \<in> set cs" unfolding assms(2) by simp
  with cs f have t: "a = 300 \<or> b = 300 \<or> c = 300" by simp
  from r t have "max (max a b) c = 300" by (elim disjE) simp_all
  with finite_max3 [of a b c] cs f show ?thesis by simp
qed

lemma bandwidth_300: "float_to_int (fmul (Finite 300) (Finite 1000)) = Inr 300000"
  by code_simp

lemma float_number_error: "float_number u = Inl e \<Longrightarrow> e = ValueError"
  unfolding float_number_def
  by (simp split: prod.splits list.splits if_splits)

lemma py_float_error: "py_float s = Inl e \<Longrightarrow> e = ValueError"
  unfolding py_float_def Let_def
  by (auto split: prod.splits if_splits sum.splits dest: float_number_error)

lemma emap_Inl:
  assumes "\<forall>y e'. f y = Inl e' \<longrightarrow> e' = e"
  shows "x \<in> set xs \<Longrightarrow> f x = Inl e \<Longrightarrow> emap f xs = Inl e"
proof (induction xs)
  case Nil
  from Nil(1) show ?case by simp
next
  case (Cons a xs)
  show ?case
  proof (cases "f a")
    case (Inl e')
    with assms have "e' = e" by blast
    with Inl show ?thesis by (simp add: ebind_def)
  next
    case (Inr v)
    with Cons.prems have "x \<in> set xs" by auto
    from Cons.IH [OF this Cons.prems(2)] Inr show ?thesis by (simp add: ebind_def)
  qed
qed

section \<open>The claims\<close>

text \<open>
  C1.  The carry-forward example of the specification holds, and a legacy probe line before
  any timestamp is dropped; but after the line \<^verbatim>\<open>Time: 0 ms\<close> the last timestamp is
  \<^verbatim>\<open>0\<close>, which the test \<^verbatim>\<open>and last_timestamp\<close> takes for false, and the legacy probe
  event is dropped although a timestamp has been observed.
\<close>

theorem legacy_probe_after_timestamp_zero:
  "parse_text (''Time: 100 ms ...'' @ [LF] @ ''[ProbeBWE-Result] Cluster ID: 3, Final estimate: 5000 bps'')
     = Inr (empty_dict\<lparr>probe_data := [\<lparr>probe_timestamp = 100, probe_cluster_id = 3,
          probe_estimate = 5000, probe_source = ''result_old''\<rparr>]\<rparr>)
   \<and> parse_text (''[ProbeBWE-Result] Cluster ID: 3, Final estimate: 5000 bps'' @ [LF]) = Inr empty_dict
   \<and> parse_text (''Time: 0 ms ...'' @ [LF] @ ''[ProbeBWE-Result] Cluster ID: 3, Final estimate: 5000 bps'')
     = Inr empty_dict"
  by code_simp

text \<open>
  C2.  As stated the claim fails for a run that yields decisions and no Trendline, RTT or
  loss record: the classifier sits in \<^verbatim>\<open>plot_gcc_decision_metrics\<close>, which then returns
  before it ranks anything.
\<close>

theorem decision_rank_counterexample:
  "plot_gcc_decision_metrics (empty_dict\<lparr>decision_data :=
      [\<lparr>dec_timestamp = 7, dec_decision_reason = ''DelayLimit''\<rparr>,
       \<lparr>dec_timestamp = 9, dec_decision_reason = ''Probe''\<rparr>]\<rparr>) = None"
  by code_simp

text \<open>
  C2, amended.  When the run yields at least one Trendline, RTT or loss record, the method
  maps the reason of every event of the decision series, in order, to its rank: Hold to 0,
  LossEstimate to 1, ProbeResult to 2, RttBackoff to 3, DelayLimit to 4 and every other
  token to 0, without failing.  When those three series are all empty it emits no rank.
\<close>

theorem decision_rank_under_guard:
  assumes "trendline_data d \<noteq> [] \<or> rtt_data d \<noteq> [] \<or> loss_data d \<noteq> []"
  shows "map_option plot_decision (plot_gcc_decision_metrics d) =
       Some (map (\<lambda>e. (dec_timestamp e,
              if dec_decision_reason e = ''Hold'' then 0
              else if dec_decision_reason e = ''LossEstimate'' then 1
              else if dec_decision_reason e = ''ProbeResult'' then 2
              else if dec_decision_reason e = ''RttBackoff'' then 3
              else if dec_decision_reason e = ''DelayLimit'' then 4
              else 0)) (decision_data d))
     \<and> (\<forall>e. trendline_data e = [] \<and> rtt_data e = [] \<and> loss_data e = []
            \<longrightarrow> plot_gcc_decision_metrics e = None)"
  using assms
  by (auto simp: plot_gcc_decision_metrics_def decision_timeline_def decision_numeric_def
      reason_map_def)

theorem decision_rank_under_guard_witness:
  "rtt_data all_reasons_dict \<noteq> []
   \<and> map_option plot_decision (plot_gcc_decision_metrics all_reasons_dict)
     = Some [(1, 0), (2, 1), (3, 2), (4, 3), (5, 4), (6, 0)]"
proof -
  have h: "trendline_data all_reasons_dict \<noteq> [] \<or> rtt_data all_reasons_dict \<noteq> []
      \<or> loss_data all_reasons_dict \<noteq> []"
    by (simp add: all_reasons_dict_def)
  from decision_rank_under_guard [OF h] show ?thesis by (simp add: all_reasons_dict_def)
qed

text \<open>
  C3.  On a Trendline line whose two numeric fields both read \<^verbatim>\<open>nan\<close>, the modified
  trend becomes 0.0, but the threshold goes through \<^verbatim>\<open>float('nan')\<close>, which does not
  raise, and stays a NaN.
\<close>

theorem trendline_threshold_nan_kept:
  "process_line init_state
     (''[Trendline] Time: 5 ms, Modified trend: nan, Threshold: nan, State: Normal'' @ [LF])
   = Inr (init_state\<lparr>last_timestamp := Some 5,
        trendline_data := [\<lparr>tl_timestamp = 5, tl_modified_trend = Finite 0,
          tl_threshold = NaN, tl_state = ''Normal''\<rparr>]\<rparr>)"
  by code_simp

text \<open>
  C4.  As stated the claim fails on a line that also holds a record of a format tried
  earlier: the Trendline pattern takes the line and no probe event is emitted.
\<close>

theorem probe_precedence_counterexample:
  "is_match probe_result trendline_then_probes \<and> is_match probe_result_old trendline_then_probes
   \<and> process_line init_state trendline_then_probes
     = Inr (init_state\<lparr>last_timestamp := Some 1,
          trendline_data := [\<lparr>tl_timestamp = 1, tl_modified_trend = Finite 1,
            tl_threshold = Finite 2, tl_state = ''a''\<rparr>]\<rparr>)"
  by code_simp

text \<open>
  C4, amended.  A line that matches the timestamped and the legacy probe-result pattern, and
  none of the four patterns tried before them (Trendline, RttBWE-Update, LossBWE-Estimate,
  LossBWE-Candidates), and whose numerals have at most 4300 digits each, adds exactly one
  probe event, with source \<^verbatim>\<open>result\<close> and the timestamp, cluster and estimate of the
  timestamped match; nothing else changes but the last timestamp.  And no line adds more
  than one event to all the series together.
\<close>

theorem timestamped_probe_result_first:
  assumes "search trendline line = None" and "search rtt_bwe line = None"
    and "search loss_bwe line = None" and "search loss_candidates line = None"
    and "search probe_result line = Some gs" and "is_match probe_result_old line"
    and "short_digit_runs line"
  shows "(\<exists>lt. process_line st line = Inr (st\<lparr>last_timestamp := lt,
            probe_data := probe_data st @
              [\<lparr>probe_timestamp = digits_val (group gs 1), probe_cluster_id = digits_val (group gs 2),
                probe_estimate = digits_val (group gs 3), probe_source = ''result''\<rparr>]\<rparr>))
       \<and> (\<forall>s l s'. process_line s l = Inr s' \<longrightarrow> event_count s' \<le> event_count s + 1)"
proof -
  from update_timestamp_result [OF assms(7)] obtain lt where
    u: "update_timestamp st line = Inr (st\<lparr>last_timestamp := lt\<rparr>)" by blast
  have "classify (st\<lparr>last_timestamp := lt\<rparr>) line = on_probe ''result'' (st\<lparr>last_timestamp := lt\<rparr>) gs"
    using assms by (simp add: classify_def)
  with u probe_result_groups [OF assms(5,7)]
  have "process_line st line = Inr (st\<lparr>last_timestamp := lt,
            probe_data := probe_data st @
              [\<lparr>probe_timestamp = digits_val (group gs 1), probe_cluster_id = digits_val (group gs 2),
                probe_estimate = digits_val (group gs 3), probe_source = ''result''\<rparr>]\<rparr>)"
    by (simp add: process_line_def ebind_def)
  then show ?thesis using process_line_count by auto
qed

theorem timestamped_probe_result_first_witness:
  "search trendline two_probe_records = None \<and> search rtt_bwe two_probe_records = None
   \<and> search loss_bwe two_probe_records = None \<and> search loss_candidates two_probe_records = None
   \<and> search probe_result two_probe_records = Some [''1'', ''2'', ''3'']
   \<and> is_match probe_result_old two_probe_records \<and> short_digit_runs two_probe_records
   \<and> (\<exists>lt. process_line init_state two_probe_records = Inr (init_state\<lparr>last_timestamp := lt,
          probe_data := [\<lparr>probe_timestamp = 1, probe_cluster_id = 2, probe_estimate = 3,
            probe_source = ''result''\<rparr>]\<rparr>))"
proof -
  have h1: "search trendline two_probe_records = None" by code_simp
  have h2: "search rtt_bwe two_probe_records = None" by code_simp
  have h3: "search loss_bwe two_probe_records = None" by code_simp
  have h4: "search loss_candidates two_probe_records = None" by code_simp
  have h5: "search probe_result two_probe_records = Some [''1'', ''2'', ''3'']" by code_simp
  have h6: "is_match probe_result_old two_probe_records" by code_simp
  have h7: "short_digit_runs two_probe_records" by code_simp
  have v: "digits_val ''1'' = 1" "digits_val ''2'' = 2" "digits_val ''3'' = 3" by code_simp+
  from timestamped_probe_result_first [OF h1 h2 h3 h4 h5 h6 h7, of init_state]
  show ?thesis using h1 h2 h3 h4 h5 h6 h7 by (simp add: group_def v init_state_def)
qed

text \<open>
  C5.  As stated the claim fails on a line that also holds a Trendline record: the Trendline
  pattern, tried first, takes the line, and no loss record is appended.
\<close>

theorem candidates_record_counterexample:
  "search loss_candidates (trendline_then_candidates @ [LF]) = Some [''7'', ''100, 200, 300'']
   \<and> process_line init_state (trendline_then_candidates @ [LF])
     = Inr (init_state\<lparr>last_timestamp := Some 1,
          trendline_data := [\<lparr>tl_timestamp = 1, tl_modified_trend = Finite 1,
            tl_threshold = Finite 2, tl_state = ''a''\<rparr>]\<rparr>)"
  by code_simp

text \<open>
  C5, amended.  Take a line on which the candidates pattern captures a text that parses to
  the three candidates 100, 200 and 300, in any order and however they are spelled and
  separated, which matches none of the three patterns tried before it (Trendline,
  RttBWE-Update, LossBWE-Estimate) and whose numerals have at most 4300 digits each.  It
  appends exactly one loss record, with state -1, three observations, the three candidates
  and bandwidth 300000, the largest candidate times 1000.  The estimates that the
  statistics are computed from hold no record of state -1, and the statistics of a loss
  series are those of the series without its candidate records.
\<close>

theorem candidates_record_and_separation:
  assumes "search trendline line = None" and "search rtt_bwe line = None"
    and "search loss_bwe line = None"
    and "search loss_candidates line = Some [ts, txt]"
    and "parse_candidates txt = Inr cs"
    and "length cs = 3" and "set cs = {Finite 100, Finite 200, Finite 300}"
    and "short_digit_runs line"
  shows "(\<exists>lt. process_line st line = Inr (st\<lparr>last_timestamp := lt,
            loss_data := loss_data st @
              [\<lparr>loss_timestamp = digits_val ts, loss_state = - 1, loss_bandwidth = 300000,
                loss_observations = 3, loss_candidates_key = Some cs\<rparr>]\<rparr>))
       \<and> (\<forall>loss. (\<forall>r \<in> set (estimates_df loss). loss_state r \<noteq> - 1)
              \<and> loss_statistics (filter (\<lambda>r. loss_state r \<noteq> - 1) loss) = loss_statistics loss)"
proof -
  from update_timestamp_result [OF assms(8)] obtain lt where
    u: "update_timestamp st line = Inr (st\<lparr>last_timestamp := lt\<rparr>)" by blast
  have c: "classify (st\<lparr>last_timestamp := lt\<rparr>) line
      = on_candidates (st\<lparr>last_timestamp := lt\<rparr>) [ts, txt]"
    using assms(1-4) by (simp add: classify_def)
  from assms(6) have n: "cs \<noteq> []" by auto
  from max_of_three [OF assms(6,7)] bandwidth_300
  have b: "float_to_int (fmul (py_max cs) (Finite 1000)) = Inr 300000" by simp
  from u c candidates_timestamp [OF assms(4,8)] assms(5,6) n b
  have "process_line st line = Inr (st\<lparr>last_timestamp := lt,
            loss_data := loss_data st @
              [\<lparr>loss_timestamp = digits_val ts, loss_state = - 1, loss_bandwidth = 300000,
                loss_observations = 3, loss_candidates_key = Some cs\<rparr>]\<rparr>)"
    by (simp add: process_line_def on_candidates_def ebind_def group_def)
  moreover have "\<forall>r \<in> set (estimates_df loss). loss_state r \<noteq> - 1" for loss
    by (auto simp: estimates_df_def)
  ultimately show ?thesis using loss_statistics_ignore_candidates by blast
qed

theorem candidates_record_and_separation_witness:
  "search trendline (scrambled_candidates_line @ [LF]) = None
   \<and> search rtt_bwe (scrambled_candidates_line @ [LF]) = None
   \<and> search loss_bwe (scrambled_candidates_line @ [LF]) = None
   \<and> search loss_candidates (scrambled_candidates_line @ [LF]) = Some [''7'', ''300, 100, 200, '']
   \<and> parse_candidates ''300, 100, 200, '' = Inr [Finite 300, Finite 100, Finite 200]
   \<and> parse_candidates ''100, 200, 300'' = Inr [Finite 100, Finite 200, Finite 300]
   \<and> short_digit_runs (scrambled_candidates_line @ [LF])
   \<and> (\<exists>lt. process_line init_state (scrambled_candidates_line @ [LF]) = Inr (init_state\<lparr>last_timestamp := lt,
          loss_data := [\<lparr>loss_timestamp = 7, loss_state = - 1, loss_bandwidth = 300000,
            loss_observations = 3,
            loss_candidates_key = Some [Finite 300, Finite 100, Finite 200]\<rparr>]\<rparr>))"
proof -
  have h1: "search trendline (scrambled_candidates_line @ [LF]) = None" by code_simp
  have h2: "search rtt_bwe (scrambled_candidates_line @ [LF]) = None" by code_simp
  have h3: "search loss_bwe (scrambled_candidates_line @ [LF]) = None" by code_simp
  have h4: "search loss_candidates (scrambled_candidates_line @ [LF]) = Some [''7'', ''300, 100, 200, '']"
    by code_simp
  have h5: "parse_candidates ''300, 100, 200, '' = Inr [Finite 300, Finite 100, Finite 200]"
    by code_simp
  have h6: "length [Finite 300, Finite 100, Finite 200] = 3" by simp
  have h7: "set [Finite 300, Finite 100, Finite 200] = {Finite 100, Finite 200, Finite 300}"
    by auto
  have h8: "short_digit_runs (scrambled_candidates_line @ [LF])" by code_simp
  have v: "digits_val ''7'' = 7" by code_simp
  from candidates_record_and_separation [OF h1 h2 h3 h4 h5 h6 h7 h8, of init_state]
  show ?thesis using h1 h2 h3 h4 h5 h8 candidates_123 by (simp add: v init_state_def)
qed

text \<open>
  C6.  The file is opened with strict UTF-8 decoding: a log with one byte that is not valid
  UTF-8 after a well-formed first line makes the whole run fail with a decode error, whereas
  the same log without that byte is parsed.
\<close>

theorem undecodable_byte_fails_run:
  "parse_bytes (map of_char ''Time: 100 ms'' @ [0x0A, 0xFF, 0x0A]) = Some (Inl UnicodeDecodeError)
   \<and> parse_bytes (map of_char ''Time: 100 ms'' @ [0x0A, 0x0A]) = Some (Inr empty_dict)"
  by code_simp




text \<open>
  C8.  Two invocations on the same files give the same result, because nothing of a run
  survives it.  The loop reads of its state only the last timestamp: run from any state, it
  appends to the series of that state exactly what it yields from empty series with the same
  last timestamp.  Every run starts from empty series and the last timestamp unknown, and
  the method leaves the analyzer object as it found it.  The start matters: the legacy probe
  line that a run with a surviving timestamp of 100 would emit is dropped by a run that
  starts afresh.
\<close>

theorem runs_start_afresh:
  "parse_lines st ls = map_sum id (join_series st) (parse_lines (fresh (last_timestamp st)) ls)
   \<and> parse_text text = map_sum id data_dict.truncate (parse_lines (fresh None) (file_lines text))
   \<and> parse_log_file fs (snd (parse_log_file fs self)) = parse_log_file fs self
   \<and> parse_lines (fresh (Some 100)) [legacy_probe_line]
      = Inr ((fresh (Some 100))\<lparr>probe_data := [\<lparr>probe_timestamp = 100, probe_cluster_id = 3,
            probe_estimate = 5000, probe_source = ''result_old''\<rparr>]\<rparr>)
   \<and> parse_lines (fresh None) [legacy_probe_line] = Inr (fresh None)"
proof -
  have a: "parse_text text = map_sum id data_dict.truncate (parse_lines (fresh None) (file_lines text))"
    by (auto simp: parse_text_def fresh_def init_state_def split: sum.splits)
  have b: "parse_log_file fs (snd (parse_log_file fs self)) = parse_log_file fs self"
    by (auto simp: parse_log_file_def split: option.splits)
  have c: "parse_lines (fresh (Some 100)) [legacy_probe_line]
      = Inr ((fresh (Some 100))\<lparr>probe_data := [\<lparr>probe_timestamp = 100, probe_cluster_id = 3,
            probe_estimate = 5000, probe_source = ''result_old''\<rparr>]\<rparr>)"
    by code_simp
  have d: "parse_lines (fresh None) [legacy_probe_line] = Inr (fresh None)"
    by code_simp
  from parse_lines_frame a b c d show ?thesis by blast
qed




text \<open>
  C10.  As stated the claim fails on a candidate text with an entry that is not a numeral:
  \<^verbatim>\<open>abc\<close> holds no parseable number, yet \<^verbatim>\<open>float('abc')\<close> raises and the run ends.
\<close>

theorem unparseable_candidate_counterexample:
  "search loss_candidates word_candidates_line = Some [''7'', ''abc'']
   \<and> py_float ''abc'' = Inl ValueError
   \<and> process_line init_state word_candidates_line = Inl ValueError"
  by code_simp

text \<open>
  C10, amended.  Take a line that the candidates pattern matches, that matches none of the
  three patterns tried before it, and whose numerals have at most 4300 digits each.  When
  the captured candidate text has no entry at all, that is, consists of commas and
  whitespace only, the parse does not raise: the maximum of the empty list is guarded, and
  one record is appended with bandwidth 0, observations 0, state -1 and an empty candidates
  list.  When some entry is not a numeral that \<^verbatim>\<open>float()\<close> reads, the parse raises
  \<^verbatim>\<open>ValueError\<close>.
\<close>

theorem blank_candidates_guarded:
  assumes "search trendline line = None" and "search rtt_bwe line = None"
    and "search loss_bwe line = None"
    and "search loss_candidates line = Some [ts, txt]"
    and "short_digit_runs line"
  shows "(list_all (\<lambda>c. c = CHR '','' \<or> is_space c) txt \<longrightarrow>
          (\<exists>lt. process_line st line = Inr (st\<lparr>last_timestamp := lt,
            loss_data := loss_data st @
              [\<lparr>loss_timestamp = digits_val ts, loss_state = - 1, loss_bandwidth = 0,
                loss_observations = 0, loss_candidates_key = Some []\<rparr>]\<rparr>)))
     \<and> ((\<exists>e \<in> set (candidate_entries txt). py_float e = Inl ValueError) \<longrightarrow>
          process_line st line = Inl ValueError)"
proof -
  from update_timestamp_result [OF assms(5)] obtain lt where
    u: "update_timestamp st line = Inr (st\<lparr>last_timestamp := lt\<rparr>)" by blast
  have c: "classify (st\<lparr>last_timestamp := lt\<rparr>) line = on_candidates (st\<lparr>last_timestamp := lt\<rparr>) [ts, txt]"
    using assms(1-4) by (simp add: classify_def)
  note t = candidates_timestamp [OF assms(4,5)]
  have "\<exists>lt. process_line st line = Inr (st\<lparr>last_timestamp := lt,
            loss_data := loss_data st @
              [\<lparr>loss_timestamp = digits_val ts, loss_state = - 1, loss_bandwidth = 0,
                loss_observations = 0, loss_candidates_key = Some []\<rparr>]\<rparr>)"
    if "list_all (\<lambda>c. c = CHR '','' \<or> is_space c) txt"
  proof -
    from u c t parse_candidates_blank [OF that]
    have "process_line st line = Inr (st\<lparr>last_timestamp := lt,
            loss_data := loss_data st @
              [\<lparr>loss_timestamp = digits_val ts, loss_state = - 1, loss_bandwidth = 0,
                loss_observations = 0, loss_candidates_key = Some []\<rparr>]\<rparr>)"
      by (simp add: process_line_def on_candidates_def ebind_def group_def)
    then show ?thesis by blast
  qed
  moreover have "process_line st line = Inl ValueError"
    if "\<exists>e \<in> set (candidate_entries txt). py_float e = Inl ValueError"
  proof -
    from that obtain e where e: "e \<in> set (candidate_entries txt)" "py_float e = Inl ValueError"
      by blast
    have "\<forall>y e'. py_float y = Inl e' \<longrightarrow> e' = ValueError" using py_float_error by blast
    from emap_Inl [OF this e] have "parse_candidates txt = Inl ValueError"
      by (simp add: parse_candidates_def)
    with u c t show ?thesis
      by (simp add: process_line_def on_candidates_def ebind_def group_def)
  qed
  ultimately show ?thesis by blast
qed

theorem blank_candidates_guarded_witness:
  "search trendline blank_candidates_line = None \<and> search rtt_bwe blank_candidates_line = None
   \<and> search loss_bwe blank_candidates_line = None
   \<and> search loss_candidates blank_candidates_line = Some [''7'', '', ,'']
   \<and> short_digit_runs blank_candidates_line
   \<and> list_all (\<lambda>c. c = CHR '','' \<or> is_space c) '', ,''
   \<and> (\<exists>lt. process_line init_state blank_candidates_line = Inr (init_state\<lparr>last_timestamp := lt,
          loss_data := [\<lparr>loss_timestamp = 7, loss_state = - 1, loss_bandwidth = 0,
            loss_observations = 0, loss_candidates_key = Some []\<rparr>]\<rparr>))
   \<and> search loss_candidates word_candidates_line = Some [''7'', ''abc'']
   \<and> (\<exists>e \<in> set (candidate_entries ''abc''). py_float e = Inl ValueError)
   \<and> process_line init_state word_candidates_line = Inl ValueError"
proof -
  have h1: "search trendline blank_candidates_line = None" by code_simp
  have h2: "search rtt_bwe blank_candidates_line = None" by code_simp
  have h3: "search loss_bwe blank_candidates_line = None" by code_simp
  have h4: "search loss_candidates blank_candidates_line = Some [''7'', '', ,'']" by code_simp
  have h5: "short_digit_runs blank_candidates_line" by code_simp
  have h6: "list_all (\<lambda>c. c = CHR '','' \<or> is_space c) '', ,''" by code_simp
  have k1: "search trendline word_candidates_line = None" by code_simp
  have k2: "search rtt_bwe word_candidates_line = None" by code_simp
  have k3: "search loss_bwe word_candidates_line = None" by code_simp
  have k4: "search loss_candidates word_candidates_line = Some [''7'', ''abc'']" by code_simp
  have k5: "short_digit_runs word_candidates_line" by code_simp
  have k6: "candidate_entries ''abc'' = [''abc'']" by code_simp
  have k7: "py_float ''abc'' = Inl ValueError" by code_simp
  from k6 k7 have k8: "\<exists>e \<in> set (candidate_entries ''abc''). py_float e = Inl ValueError" by simp
  have v: "digits_val ''7'' = 7" by code_simp
  from blank_candidates_guarded [OF h1 h2 h3 h4 h5, of init_state] h6
  have a: "\<exists>lt. process_line init_state blank_candidates_line = Inr (init_state\<lparr>last_timestamp := lt,
          loss_data := [\<lparr>loss_timestamp = 7, loss_state = - 1, loss_bandwidth = 0,
            loss_observations = 0, loss_candidates_key = Some []\<rparr>]\<rparr>)"
    by (simp add: v init_state_def)
  from blank_candidates_guarded [OF k1 k2 k3 k4 k5, of init_state] k8
  have b: "process_line init_state word_candidates_line = Inl ValueError" by blast
  from a b h1 h2 h3 h4 h5 h6 k4 k8 show ?thesis by blast
qed

end
